theory Spec2Isabelle
  imports Complex_Main "HOL-Library.AList" "HOL-Library.Sublist"
begin

section \<open>JSON values, Python dictionaries and exceptions\<close>

text \<open>
  The bot assembles a report as a Python dictionary (\<^verbatim>\<open>report_data\<close>), posts it as JSON
  to the Flask backend, and the backend turns it into a row of the \<^verbatim>\<open>disaster_reports\<close>
  table. All three are dictionaries with string keys, so one type of JSON values serves
  them: a dictionary is an association list in insertion order with distinct keys.
  A Python float is modelled by the real number it denotes (the non-finite floats are
  outside the model): the code stores and forwards coordinates and never computes with
  them on the paths modelled here. Where Python converts to a float, the conversion is a
  parameter of the model, since it rounds and may raise. Strings are byte lists; non-ASCII
  text is its UTF-8 encoding.
\<close>

datatype jval =
    JNull
  | JBool bool
  | JInt int
  | JFloat real
  | JStr string
  | JArr "jval list"
  | JObj "(string \<times> jval) list"

type_synonym pydict = "(string \<times> jval) list"

datatype py_exn =
    KeyError string
  | TypeError
  | ValueError
  | AttributeError
  | IndexError
  | OverflowError
  | BadRequest
  | ExternalError string

text \<open>\<^verbatim>\<open>d.get(k, default)\<close> and \<^verbatim>\<open>d[k] = v\<close> on a dictionary.\<close>

definition dict_get :: "pydict \<Rightarrow> string \<Rightarrow> jval \<Rightarrow> jval" where
  "dict_get d k dflt = (case map_of d k of None \<Rightarrow> dflt | Some v \<Rightarrow> v)"

definition dict_set :: "pydict \<Rightarrow> string \<Rightarrow> jval \<Rightarrow> pydict" where
  "dict_set d k v = AList.update k v d"

text \<open>\<^verbatim>\<open>x[k]\<close> with a string key, on a value parsed from JSON: only a dictionary that has
  the key answers; a missing key raises KeyError, any other value TypeError.\<close>

definition getitem :: "jval \<Rightarrow> string \<Rightarrow> py_exn + jval" where
  "getitem x k =
     (case x of
        JObj d \<Rightarrow> (case map_of d k of None \<Rightarrow> Inl (KeyError k) | Some v \<Rightarrow> Inr v)
      | _ \<Rightarrow> Inl TypeError)"

text \<open>\<^verbatim>\<open>x.get(k, default)\<close>: only dictionaries have the method.\<close>

definition get_default :: "jval \<Rightarrow> string \<Rightarrow> jval \<Rightarrow> py_exn + jval" where
  "get_default x k dflt =
     (case x of JObj d \<Rightarrow> Inr (dict_get d k dflt) | _ \<Rightarrow> Inl AttributeError)"

text \<open>\<^verbatim>\<open>k in x\<close> for a string \<^verbatim>\<open>k\<close>: key membership in a dictionary, element membership in
  a list, substring test in a string, TypeError otherwise.\<close>

definition py_contains :: "jval \<Rightarrow> string \<Rightarrow> py_exn + bool" where
  "py_contains x k =
     (case x of
        JObj d \<Rightarrow> Inr (map_of d k \<noteq> None)
      | JArr xs \<Rightarrow> Inr (JStr k \<in> set xs)
      | JStr s \<Rightarrow> Inr (sublist k s)
      | _ \<Rightarrow> Inl TypeError)"

definition bind_exn :: "('e + 'a) \<Rightarrow> ('a \<Rightarrow> 'e + 'b) \<Rightarrow> 'e + 'b" where
  "bind_exn m f = (case m of Inl e \<Rightarrow> Inl e | Inr x \<Rightarrow> f x)"

text \<open>\<^verbatim>\<open>s.startswith(p)\<close> and \<^verbatim>\<open>s.replace(old, new)\<close>: every non-overlapping occurrence
  of \<^verbatim>\<open>old\<close> is replaced, scanning from the left; an empty \<^verbatim>\<open>old\<close> matches before
  every character and at the end.\<close>

definition startswith :: "string \<Rightarrow> string \<Rightarrow> bool" where
  "startswith s p = prefix p s"

fun py_replace :: "string \<Rightarrow> string \<Rightarrow> string \<Rightarrow> string" where
  "py_replace old new [] = (if old = [] then new else [])"
| "py_replace old new (c # cs) =
     (if old = [] then new @ c # py_replace old new cs
      else if prefix old (c # cs) then new @ py_replace old new (drop (length old) (c # cs))
      else c # py_replace old new cs)"

section \<open>The backend: \<^verbatim>\<open>supabase_client.py\<close> and \<^verbatim>\<open>app.py\<close>\<close>

text \<open>
  What the backend reads from outside is a parameter: the identifier drawn from
  \<^verbatim>\<open>uuid.uuid4()\<close>, the clock, the Python built-ins \<^verbatim>\<open>str\<close>, \<^verbatim>\<open>float\<close> and
  \<^verbatim>\<open>json.dumps\<close>, and the Supabase client: \<^verbatim>\<open>table(t).insert(row).execute()\<close> either
  raises or returns the list \<^verbatim>\<open>result.data\<close>. \<^verbatim>\<open>float\<close> of an integer is the nearest
  double, or OverflowError (\<open>None\<close>) when the integer is beyond the doubles; \<^verbatim>\<open>float\<close> of
  a string is the number it spells, or ValueError (\<open>None\<close>).
\<close>

record backend_env =
  uuid_id :: string
  now_created :: string
  now_updated :: string
  now_alert :: string
  py_str :: "jval \<Rightarrow> string"
  float_of_int :: "int \<Rightarrow> real option"
  float_of_str :: "string \<Rightarrow> real option"
  json_dumps :: "jval \<Rightarrow> string"
  exn_str :: "py_exn \<Rightarrow> string"
  db_insert :: "string \<Rightarrow> pydict \<Rightarrow> py_exn + jval list"

text \<open>The calls the backend makes, in order: inserts into a table, calls of
  \<^verbatim>\<open>emergency_service.trigger_emergency_alert\<close>, and what is printed to the log.\<close>

datatype log_line = AlertTriggered jval | AlertError py_exn

datatype call =
    DbInsert string pydict
  | AlertCall jval
  | Printed log_line

text \<open>\<^verbatim>\<open>float(x)\<close>: a float is returned as it is, a boolean is 0 or 1, an integer and a
  string are converted or raise, anything else is a TypeError.\<close>

definition py_float :: "backend_env \<Rightarrow> jval \<Rightarrow> py_exn + real" where
  "py_float env x =
     (case x of
        JFloat r \<Rightarrow> Inr r
      | JInt i \<Rightarrow> (case float_of_int env i of None \<Rightarrow> Inl OverflowError | Some r \<Rightarrow> Inr r)
      | JBool b \<Rightarrow> Inr (if b then 1 else 0)
      | JStr s \<Rightarrow> (case float_of_str env s of None \<Rightarrow> Inl ValueError | Some r \<Rightarrow> Inr r)
      | _ \<Rightarrow> Inl TypeError)"

text \<open>The dictionary literal \<^verbatim>\<open>db_data\<close> of \<^verbatim>\<open>DisasterReportService.create_report\<close>; its
  entries are evaluated in order and the first exception leaves the \<^verbatim>\<open>try\<close> block.\<close>

definition db_data :: "backend_env \<Rightarrow> jval \<Rightarrow> py_exn + pydict" where
  "db_data env report_data =
     bind_exn (getitem report_data ''user_id'') (\<lambda>uid.
     bind_exn (get_default report_data ''username'' (JStr ''Anonymous'')) (\<lambda>uname.
     bind_exn (getitem report_data ''disaster_type'') (\<lambda>dtype.
     bind_exn (getitem report_data ''severity'') (\<lambda>sev.
     bind_exn (getitem report_data ''latitude'') (\<lambda>latv.
     bind_exn (py_float env latv) (\<lambda>lat.
     bind_exn (getitem report_data ''longitude'') (\<lambda>lonv.
     bind_exn (py_float env lonv) (\<lambda>lon.
     bind_exn (get_default report_data ''description'' (JStr '''')) (\<lambda>descr.
     bind_exn (get_default report_data ''photos'' (JArr [])) (\<lambda>photos.
       Inr [(''id'', JStr (uuid_id env)),
            (''user_id'', JStr (py_str env uid)),
            (''username'', uname),
            (''disaster_type'', dtype),
            (''severity'', sev),
            (''latitude'', JFloat lat),
            (''longitude'', JFloat lon),
            (''description'', descr),
            (''photos'', JStr (json_dumps env photos)),
            (''status'', JStr ''Pending''),
            (''source'', JStr ''Telegram Bot''),
            (''created_at'', JStr (now_created env)),
            (''updated_at'', JStr (now_updated env))]))))))))))"

text \<open>The result dictionaries \<^verbatim>\<open>{'success': False, 'error': ...}\<close> and
  \<^verbatim>\<open>{'success': True, 'id': ..., 'data': ...}\<close>.\<close>

datatype err = Raised py_exn | FailedToCreate

definition DisasterReportService_create_report ::
    "backend_env \<Rightarrow> jval \<Rightarrow> (err + string \<times> jval) \<times> call list" where
  "DisasterReportService_create_report env report_data =
     (case db_data env report_data of
        Inl e \<Rightarrow> (Inl (Raised e), [])
      | Inr row \<Rightarrow>
          (case db_insert env ''disaster_reports'' row of
             Inl e \<Rightarrow> (Inl (Raised e), [DbInsert ''disaster_reports'' row])
           | Inr [] \<Rightarrow> (Inl FailedToCreate, [DbInsert ''disaster_reports'' row])
           | Inr (r # rs) \<Rightarrow> (Inr (uuid_id env, r), [DbInsert ''disaster_reports'' row])))"

text \<open>\<^verbatim>\<open>EmergencyNotificationService.trigger_emergency_alert\<close>: every exception is caught
  inside, printed, and returned as \<^verbatim>\<open>{'success': False, ...}\<close> (\<open>Inl\<close>).\<close>

definition alert_data :: "backend_env \<Rightarrow> jval \<Rightarrow> py_exn + pydict" where
  "alert_data env report_data =
     bind_exn (getitem report_data ''id'') (\<lambda>rid.
     bind_exn (getitem report_data ''severity'') (\<lambda>sev.
     bind_exn (getitem report_data ''latitude'') (\<lambda>lat.
     bind_exn (getitem report_data ''longitude'') (\<lambda>lon.
     bind_exn (getitem report_data ''disaster_type'') (\<lambda>dtype.
     bind_exn (get_default report_data ''description'' (JStr '''')) (\<lambda>descr.
       Inr [(''report_id'', rid),
            (''alert_type'', JStr ''Critical Disaster Report''),
            (''severity'', sev),
            (''location'', JStr (py_str env lat @ '', '' @ py_str env lon)),
            (''disaster_type'', dtype),
            (''description'', descr),
            (''status'', JStr ''Active''),
            (''created_at'', JStr (now_alert env))]))))))"

definition trigger_emergency_alert ::
    "backend_env \<Rightarrow> jval \<Rightarrow> (py_exn + jval) \<times> call list" where
  "trigger_emergency_alert env report_data =
     (case alert_data env report_data of
        Inl e \<Rightarrow> (Inl e, [Printed (AlertError e)])
      | Inr alert \<Rightarrow>
          (case db_insert env ''emergency_alerts'' alert of
             Inl e \<Rightarrow> (Inl e, [DbInsert ''emergency_alerts'' alert, Printed (AlertError e)])
           | Inr [] \<Rightarrow>
               (Inr JNull, [DbInsert ''emergency_alerts'' alert, Printed (AlertTriggered report_data)])
           | Inr (r # rs) \<Rightarrow>
               (case getitem r ''id'' of
                  Inl e \<Rightarrow>
                    (Inl e, [DbInsert ''emergency_alerts'' alert,
                             Printed (AlertTriggered report_data), Printed (AlertError e)])
                | Inr aid \<Rightarrow>
                    (Inr aid, [DbInsert ''emergency_alerts'' alert,
                               Printed (AlertTriggered report_data)]))))"

text \<open>The route \<^verbatim>\<open>POST /api/reports\<close> of \<^verbatim>\<open>app.py\<close>. The request is \<open>None\<close> when
  \<^verbatim>\<open>request.get_json()\<close> raises, and the parsed body otherwise. The response is the status
  code and the JSON body.\<close>

definition required_fields :: "string list" where
  "required_fields = [''user_id'', ''disaster_type'', ''severity'', ''latitude'', ''longitude'']"

text \<open>The loop over \<^verbatim>\<open>required_fields\<close>: the first field not in \<^verbatim>\<open>data\<close>, if any.\<close>

fun first_missing :: "jval \<Rightarrow> string list \<Rightarrow> py_exn + string option" where
  "first_missing data [] = Inr None"
| "first_missing data (field # rest) =
     (case py_contains data field of
        Inl e \<Rightarrow> Inl e
      | Inr False \<Rightarrow> Inr (Some field)
      | Inr True \<Rightarrow> first_missing data rest)"

definition err_text :: "backend_env \<Rightarrow> err \<Rightarrow> string" where
  "err_text env er =
     (case er of Raised e \<Rightarrow> exn_str env e | FailedToCreate \<Rightarrow> ''Failed to create report'')"

definition error_body :: "string \<Rightarrow> jval" where
  "error_body msg = JObj [(''error'', JStr msg)]"

definition created_body :: "string \<Rightarrow> jval \<Rightarrow> jval" where
  "created_body rid report_data =
     JObj [(''id'', JStr rid),
           (''status'', JStr ''success''),
           (''message'', JStr ''Report created successfully''),
           (''data'', report_data)]"

definition create_report :: "backend_env \<Rightarrow> jval option \<Rightarrow> (nat \<times> jval) \<times> call list" where
  "create_report env request =
     (case request of
        None \<Rightarrow> ((500, error_body (exn_str env BadRequest)), [])
      | Some data \<Rightarrow>
          (case first_missing data required_fields of
             Inl e \<Rightarrow> ((500, error_body (exn_str env e)), [])
           | Inr (Some field) \<Rightarrow>
               ((400, error_body (''Missing required field: '' @ field)), [])
           | Inr None \<Rightarrow>
               (case DisasterReportService_create_report env data of
                  (Inl er, calls) \<Rightarrow> ((500, error_body (err_text env er)), calls)
                | (Inr (rid, report_data), calls) \<Rightarrow>
                    (case getitem data ''severity'' of
                       Inl e \<Rightarrow> ((500, error_body (exn_str env e)), calls)
                     | Inr sev \<Rightarrow>
                         ((201, created_body rid report_data),
                          calls @
                          (if sev = JStr ''Critical''
                           then AlertCall report_data # snd (trigger_emergency_alert env report_data)
                           else []))))))"

section \<open>The bot: \<^verbatim>\<open>telegram_bot.py\<close>\<close>

text \<open>The constants of the module.\<close>

definition DISASTER_TYPES :: "string list" where
  "DISASTER_TYPES =
     [''Earthquake'', ''Flood'', ''Fire'', ''Landslide'', ''Cyclone'',
      ''Accident'', ''Medical Emergency'', ''Other'']"

definition SEVERITY_LEVELS :: "string list" where
  "SEVERITY_LEVELS = [''Low'', ''Medium'', ''High'', ''Critical'']"

text \<open>The labels of the menu buttons that \<^verbatim>\<open>handle_message\<close> compares the text with. Each
  starts with an emoji, written here as its UTF-8 bytes: U+1F6A8, U+1F198, U+2139 U+FE0F
  and U+1F4CA.\<close>

definition label_report_disaster :: string where
  "label_report_disaster = [CHR 0xF0, CHR 0x9F, CHR 0x9A, CHR 0xA8] @ '' Report Disaster''"

definition label_emergency :: string where
  "label_emergency = [CHR 0xF0, CHR 0x9F, CHR 0x86, CHR 0x98] @ '' Emergency''"

definition label_help :: string where
  "label_help = [CHR 0xE2, CHR 0x84, CHR 0xB9, CHR 0xEF, CHR 0xB8, CHR 0x8F] @ '' Help''"

definition label_my_reports :: string where
  "label_my_reports = [CHR 0xF0, CHR 0x9F, CHR 0x93, CHR 0x8A] @ '' My Reports''"

text \<open>A session is the dictionary \<^verbatim>\<open>{'step': ..., 'report_data': {...}}\<close>; \<^verbatim>\<open>user_sessions\<close>
  maps a user id to the user's session.\<close>

record session =
  step :: string
  report_data :: pydict

type_synonym sessions = "int \<Rightarrow> session option"

text \<open>\<^verbatim>\<open>update.effective_user\<close> and what an update carries. \<open>Command c\<close> is a message
  that Telegram marked as starting with a bot command: \<open>c\<close> is the command as typed, after
  the slash, with the \<^verbatim>\<open>@botname\<close> suffix if there is one. \<open>Text t\<close> is a text message; whether
  it starts with a bot command is Telegram's marking, read from the environment below. A
  photo is given by the file ids of its sizes (the last is the largest), a callback query
  by its data.\<close>

record tg_user =
  user_id :: int
  username :: "string option"
  first_name :: string

datatype payload =
    Command string
  | Text string
  | Location real real
  | Photo "string list"
  | Callback string

text \<open>A call of \<^verbatim>\<open>requests\<close> raises, or returns a status code and a body;
  the body is \<open>None\<close> when \<^verbatim>\<open>response.json()\<close> raises.\<close>

datatype http_result = RequestError | Response nat "jval option"

text \<open>What the bot reads from outside: the clock, Telegram's \<^verbatim>\<open>get_file\<close> (the file path of
  a file id, \<open>None\<close> when the call raises), the two backend requests, the bot's own user
  name, and Telegram's marking of a text that starts with a slash
  (\<open>leading_command t = Some c\<close>: the first entity of \<open>t\<close> is a bot command at offset 0, and
  \<open>c\<close> is its text after the slash).\<close>

record bot_env =
  now :: string
  get_file :: "string \<Rightarrow> jval option"
  post_report :: "jval \<Rightarrow> http_result"
  get_user_reports :: "int \<Rightarrow> http_result"
  bot_username :: string
  leading_command :: "string \<Rightarrow> string option"

text \<open>What the bot sends: one constructor for each message text of the source, with the
  values the text is formatted from. Sending a message is taken not to fail.\<close>

datatype submit_error = RequestFailed | ApiError nat | BadResponse

datatype msg =
    WelcomeMsg string
  | HelpMsg
  | AskDisasterType
  | EmergencyAskLocation
  | SessionExpired
  | AskSeverity string
  | AskLocation jval string
  | ClickShareLocation
  | LocationReceived
  | Greeting
  | AskPhotos
  | PhotoReceived nat
  | SubmitSuccess jval jval jval bool
  | SubmitError submit_error
  | UserReports http_result

datatype out =
    Reply msg
  | EditMessage msg
  | AnswerQuery
  | HttpPost jval
  | HttpGet int
  | Raise py_exn

definition username_json :: "tg_user \<Rightarrow> jval" where
  "username_json u = (case username u of None \<Rightarrow> JNull | Some n \<Rightarrow> JStr n)"

definition start :: "sessions \<Rightarrow> tg_user \<Rightarrow> sessions \<times> out list" where
  "start ss u = (ss, [Reply (WelcomeMsg (first_name u))])"

definition help_command :: "sessions \<Rightarrow> tg_user \<Rightarrow> sessions \<times> out list" where
  "help_command ss u = (ss, [Reply HelpMsg])"

definition start_report :: "bot_env \<Rightarrow> sessions \<Rightarrow> tg_user \<Rightarrow> sessions \<times> out list" where
  "start_report env ss u =
     (ss(user_id u \<mapsto>
        \<lparr>step = ''disaster_type'',
         report_data = [(''user_id'', JInt (user_id u)),
                        (''username'', username_json u),
                        (''timestamp'', JStr (now env))]\<rparr>),
      [Reply AskDisasterType])"

definition emergency_report :: "bot_env \<Rightarrow> sessions \<Rightarrow> tg_user \<Rightarrow> sessions \<times> out list" where
  "emergency_report env ss u =
     (ss(user_id u \<mapsto>
        \<lparr>step = ''emergency_location'',
         report_data = [(''user_id'', JInt (user_id u)),
                        (''username'', username_json u),
                        (''disaster_type'', JStr ''Emergency''),
                        (''severity'', JStr ''Critical''),
                        (''timestamp'', JStr (now env))]\<rparr>),
      [Reply EmergencyAskLocation])"

text \<open>\<^verbatim>\<open>button_callback\<close>. In the severity branch the message is formatted from
  \<^verbatim>\<open>session['report_data']['disaster_type']\<close> after the session has been updated: a missing
  key raises there and the update stays.\<close>

definition button_callback :: "sessions \<Rightarrow> tg_user \<Rightarrow> string \<Rightarrow> sessions \<times> out list" where
  "button_callback ss u data =
     (case ss (user_id u) of
        None \<Rightarrow> (ss, [AnswerQuery, Reply SessionExpired])
      | Some s \<Rightarrow>
          if startswith data ''type_'' then
            (let disaster_type = py_replace ''type_'' '''' data;
                 s' = s\<lparr>report_data := dict_set (report_data s) ''disaster_type'' (JStr disaster_type),
                        step := ''severity''\<rparr>
             in (ss(user_id u \<mapsto> s'), [AnswerQuery, EditMessage (AskSeverity disaster_type)]))
          else if startswith data ''severity_'' then
            (let severity = py_replace ''severity_'' '''' data;
                 s' = s\<lparr>report_data := dict_set (report_data s) ''severity'' (JStr severity),
                        step := ''location''\<rparr>
             in (case map_of (report_data s') ''disaster_type'' of
                   None \<Rightarrow> (ss(user_id u \<mapsto> s'), [AnswerQuery, Raise (KeyError ''disaster_type'')])
                 | Some dt \<Rightarrow>
                     (ss(user_id u \<mapsto> s'),
                      [AnswerQuery, EditMessage (AskLocation dt severity), Reply ClickShareLocation])))
          else (ss, [AnswerQuery]))"

text \<open>\<^verbatim>\<open>submit_report\<close>: the \<^verbatim>\<open>finally\<close> block deletes the session on every path that
  found one.\<close>

definition submit_report ::
    "bot_env \<Rightarrow> sessions \<Rightarrow> tg_user \<Rightarrow> bool \<Rightarrow> sessions \<times> out list" where
  "submit_report env ss u emergency =
     (case ss (user_id u) of
        None \<Rightarrow> (ss, [])
      | Some s \<Rightarrow>
          (let rd = report_data s;
               answer =
                 (case post_report env (JObj rd) of
                    RequestError \<Rightarrow> SubmitError RequestFailed
                  | Response code body \<Rightarrow>
                      if code = 201 then
                        (case body of
                           Some (JObj b) \<Rightarrow>
                             SubmitSuccess (dict_get b ''id'' (JStr ''Unknown''))
                               (dict_get rd ''disaster_type'' (JStr ''N/A''))
                               (dict_get rd ''severity'' (JStr ''N/A''))
                               (emergency \<or> map_of rd ''severity'' = Some (JStr ''Critical''))
                         | _ \<Rightarrow> SubmitError BadResponse)
                      else SubmitError (ApiError code))
           in (ss(user_id u := None), [HttpPost (JObj rd), Reply answer])))"

text \<open>\<^verbatim>\<open>handle_location\<close>: the step is set to \<^verbatim>\<open>'description'\<close> and then compared with
  \<^verbatim>\<open>'emergency_location'\<close>.\<close>

definition handle_location ::
    "bot_env \<Rightarrow> sessions \<Rightarrow> tg_user \<Rightarrow> real \<Rightarrow> real \<Rightarrow> sessions \<times> out list" where
  "handle_location env ss u lat lon =
     (case ss (user_id u) of
        None \<Rightarrow> (ss, [Reply SessionExpired])
      | Some s \<Rightarrow>
          (let s' = s\<lparr>report_data :=
                        dict_set (dict_set (report_data s) ''latitude'' (JFloat lat))
                          ''longitude'' (JFloat lon),
                      step := ''description''\<rparr>;
               ss' = ss(user_id u \<mapsto> s')
           in if step s' = ''emergency_location''
              then submit_report env ss' u True
              else (ss', [Reply LocationReceived])))"

text \<open>\<^verbatim>\<open>show_user_reports\<close> leaves the sessions alone; its reply is computed from the
  backend's answer.\<close>

definition show_user_reports :: "bot_env \<Rightarrow> sessions \<Rightarrow> tg_user \<Rightarrow> sessions \<times> out list" where
  "show_user_reports env ss u =
     (ss, [HttpGet (user_id u), Reply (UserReports (get_user_reports env (user_id u)))])"

definition handle_message ::
    "bot_env \<Rightarrow> sessions \<Rightarrow> tg_user \<Rightarrow> string \<Rightarrow> sessions \<times> out list" where
  "handle_message env ss u text =
     (if text = label_report_disaster then start_report env ss u
      else if text = label_emergency then emergency_report env ss u
      else if text = label_help then help_command ss u
      else if text = label_my_reports then show_user_reports env ss u
      else
        (case ss (user_id u) of
           None \<Rightarrow> (ss, [Reply Greeting])
         | Some s \<Rightarrow>
             if step s = ''description'' then
               (let s' = s\<lparr>report_data :=
                             dict_set (report_data s) ''description''
                               (if text = ''Skip Description''
                                then JStr ''No description provided'' else JStr text),
                           step := ''photos''\<rparr>
                in (ss(user_id u \<mapsto> s'), [Reply AskPhotos]))
             else if text = ''Submit Report'' then submit_report env ss u False
             else (ss, [])))"

text \<open>\<^verbatim>\<open>handle_photo\<close>: \<^verbatim>\<open>photo[-1]\<close> raises on an empty list, \<^verbatim>\<open>get_file\<close> may raise, and
  \<^verbatim>\<open>append\<close> needs a list; each of them comes before the session is changed or changes
  nothing.\<close>

definition handle_photo ::
    "bot_env \<Rightarrow> sessions \<Rightarrow> tg_user \<Rightarrow> string list \<Rightarrow> sessions \<times> out list" where
  "handle_photo env ss u sizes =
     (case ss (user_id u) of
        None \<Rightarrow> (ss, [])
      | Some s \<Rightarrow>
          if step s = ''photos'' then
            (if sizes = [] then (ss, [Raise IndexError])
             else
               (case get_file env (last sizes) of
                  None \<Rightarrow> (ss, [Raise (ExternalError ''get_file'')])
                | Some path \<Rightarrow>
                    (let rd = (if map_of (report_data s) ''photos'' = None
                               then dict_set (report_data s) ''photos'' (JArr [])
                               else report_data s)
                     in (case map_of rd ''photos'' of
                           Some (JArr ps) \<Rightarrow>
                             (let ps' = ps @ [JObj [(''file_id'', JStr (last sizes)),
                                                    (''file_path'', path)]]
                              in (ss(user_id u \<mapsto> s\<lparr>report_data := dict_set rd ''photos'' (JArr ps')\<rparr>),
                                  [Reply (PhotoReceived (length ps'))]))
                         | _ \<Rightarrow>
                             (ss(user_id u \<mapsto> s\<lparr>report_data := rd\<rparr>), [Raise AttributeError])))))
          else (ss, []))"

text \<open>\<^verbatim>\<open>str.lower\<close> on a command: the letters A to Z become a to z. (A command holds
  Latin letters, digits and underscores only.)\<close>

definition lower_char :: "char \<Rightarrow> char" where
  "lower_char c =
     (if 65 \<le> (of_char c :: nat) \<and> (of_char c :: nat) \<le> 90
      then char_of ((of_char c :: nat) + 32) else c)"

definition py_lower :: "string \<Rightarrow> string" where
  "py_lower s = map lower_char s"

text \<open>The five \<^verbatim>\<open>CommandHandler\<close>s that \<^verbatim>\<open>main\<close> registers, in their order. The library
  splits the command at \<^verbatim>\<open>@\<close>, takes the bot's own name where no name was typed, and
  handles the command when the name is the bot's and the lower-cased command is the
  handler's. A command that no handler takes is dropped: the text handler is registered
  for \<^verbatim>\<open>filters.TEXT & ~filters.COMMAND\<close>.\<close>

definition command_handlers ::
    "bot_env \<Rightarrow> sessions \<Rightarrow> tg_user \<Rightarrow> string \<Rightarrow> sessions \<times> out list" where
  "command_handlers env ss u c =
     (let command = takeWhile (\<lambda>x. x \<noteq> CHR ''@'') c;
          rest = dropWhile (\<lambda>x. x \<noteq> CHR ''@'') c;
          name = (if rest = [] then bot_username env
                  else takeWhile (\<lambda>x. x \<noteq> CHR ''@'') (tl rest))
      in if py_lower name \<noteq> py_lower (bot_username env) then (ss, [])
         else if py_lower command = ''start'' then start ss u
         else if py_lower command = ''report'' then start_report env ss u
         else if py_lower command = ''emergency'' then emergency_report env ss u
         else if py_lower command = ''help'' then help_command ss u
         else if py_lower command = ''status'' then show_user_reports env ss u
         else (ss, []))"

text \<open>\<^verbatim>\<open>filters.COMMAND\<close> on a text: a bot command starts with a slash.\<close>

definition command_of :: "bot_env \<Rightarrow> string \<Rightarrow> string option" where
  "command_of env t = (if startswith t ''/'' then leading_command env t else None)"

text \<open>The handlers as \<^verbatim>\<open>main\<close> registers them: commands, callback queries, locations,
  photos, and the texts that do not start with a command.\<close>

definition dispatch :: "bot_env \<Rightarrow> sessions \<Rightarrow> tg_user \<times> payload \<Rightarrow> sessions \<times> out list" where
  "dispatch env ss ev =
     (case ev of
        (u, Command c) \<Rightarrow> command_handlers env ss u c
      | (u, Callback d) \<Rightarrow> button_callback ss u d
      | (u, Location lat lon) \<Rightarrow> handle_location env ss u lat lon
      | (u, Photo sizes) \<Rightarrow> handle_photo env ss u sizes
      | (u, Text t) \<Rightarrow>
          (case command_of env t of
             Some c \<Rightarrow> command_handlers env ss u c
           | None \<Rightarrow> handle_message env ss u t))"

text \<open>The updates of a conversation, handled one after the other.\<close>

fun run :: "bot_env \<Rightarrow> sessions \<Rightarrow> (tg_user \<times> payload) list \<Rightarrow> sessions \<times> out list" where
  "run env ss [] = (ss, [])"
| "run env ss (ev # evs) =
     (case dispatch env ss ev of
        (ss1, out1) \<Rightarrow> (case run env ss1 evs of (ss2, out2) \<Rightarrow> (ss2, out1 @ out2)))"

text \<open>The bot talking to the backend of \<^verbatim>\<open>app.py\<close>: the POST request returns the route's
  status code and body.\<close>

definition backend_post :: "backend_env \<Rightarrow> jval \<Rightarrow> http_result" where
  "backend_post benv data =
     (case fst (create_report benv (Some data)) of (code, body) \<Rightarrow> Response code (Some body))"

section \<open>Reading the call log, and concrete environments\<close>

text \<open>The rows inserted into \<^verbatim>\<open>disaster_reports\<close>, the reports handed to
  \<^verbatim>\<open>trigger_emergency_alert\<close>, and the payloads the bot posts.\<close>

fun stored_reports :: "call list \<Rightarrow> pydict list" where
  "stored_reports [] = []"
| "stored_reports (c # cs) =
     (case c of
        DbInsert t row \<Rightarrow>
          if t = ''disaster_reports'' then row # stored_reports cs else stored_reports cs
      | _ \<Rightarrow> stored_reports cs)"

fun alert_calls :: "call list \<Rightarrow> jval list" where
  "alert_calls [] = []"
| "alert_calls (c # cs) = (case c of AlertCall r \<Rightarrow> r # alert_calls cs | _ \<Rightarrow> alert_calls cs)"

fun posts :: "out list \<Rightarrow> jval list" where
  "posts [] = []"
| "posts (x # xs) = (case x of HttpPost p \<Rightarrow> p # posts xs | _ \<Rightarrow> posts xs)"

text \<open>Environments for the examples: \<^verbatim>\<open>str\<close> on the values that occur in them, \<^verbatim>\<open>float\<close>
  on the integers up to \<open>2^53\<close>, where it is exact (the examples convert no other integer
  and no string), a store that returns the inserted row (the alerts table adds its own
  id), and stores that are down.\<close>

definition demo_str :: "jval \<Rightarrow> string" where
  "demo_str v =
     (case v of
        JInt i \<Rightarrow> (if i = 42 then ''42'' else ''int'')
      | JFloat r \<Rightarrow> (if r = 12.9 then ''12.9'' else if r = 77.6 then ''77.6'' else ''float'')
      | JStr s \<Rightarrow> s
      | _ \<Rightarrow> ''other'')"

definition env_ok :: backend_env where
  "env_ok =
     \<lparr>uuid_id = ''1A2B3C4D'', now_created = ''t1'', now_updated = ''t2'', now_alert = ''t3'',
      py_str = demo_str,
      float_of_int = (\<lambda>i. if \<bar>i\<bar> \<le> 9007199254740992 then Some (of_int i) else None),
      float_of_str = (\<lambda>s. None),
      json_dumps = (\<lambda>v. if v = JArr [] then ''[]'' else ''[...]''),
      exn_str = (\<lambda>e. ''error''),
      db_insert = (\<lambda>t row. if t = ''emergency_alerts'' then Inr [JObj ((''id'', JInt 7) # row)]
                             else Inr [JObj row])\<rparr>"

definition env_alert_down :: backend_env where
  "env_alert_down =
     env_ok\<lparr>db_insert := (\<lambda>t row. if t = ''emergency_alerts'' then Inl (ExternalError ''unavailable'')
                                     else Inr [JObj row])\<rparr>"

definition env_store_down :: backend_env where
  "env_store_down = env_ok\<lparr>db_insert := (\<lambda>t row. Inl (ExternalError ''unavailable''))\<rparr>"

definition emergency_data :: pydict where
  "emergency_data =
     [(''user_id'', JInt 42), (''username'', JStr ''reporter''),
      (''disaster_type'', JStr ''Emergency''), (''severity'', JStr ''Critical''),
      (''timestamp'', JStr ''t0''), (''latitude'', JFloat 12.9), (''longitude'', JFloat 77.6)]"

definition flood_data :: pydict where
  "flood_data =
     [(''user_id'', JInt 42), (''username'', JStr ''reporter''), (''timestamp'', JStr ''t0''),
      (''disaster_type'', JStr ''Flood''), (''severity'', JStr ''High''),
      (''latitude'', JFloat 12.9), (''longitude'', JFloat 77.6)]"



definition no_location_data :: pydict where
  "no_location_data =
     [(''user_id'', JInt 42), (''username'', JStr ''reporter''),
      (''disaster_type'', JStr ''Emergency''), (''severity'', JStr ''Critical''),
      (''timestamp'', JStr ''t0'')]"

definition row_of :: "jval \<Rightarrow> jval \<Rightarrow> jval \<Rightarrow> pydict" where
  "row_of dtype sev descr =
     [(''id'', JStr ''1A2B3C4D''), (''user_id'', JStr ''42''), (''username'', JStr ''reporter''),
      (''disaster_type'', dtype), (''severity'', sev),
      (''latitude'', JFloat 12.9), (''longitude'', JFloat 77.6),
      (''description'', descr), (''photos'', JStr ''[]''),
      (''status'', JStr ''Pending''), (''source'', JStr ''Telegram Bot''),
      (''created_at'', JStr ''t1''), (''updated_at'', JStr ''t2'')]"

definition user0 :: tg_user where
  "user0 = \<lparr>user_id = 42, username = Some ''reporter'', first_name = ''Rita''\<rparr>"

definition bot_env0 :: bot_env where
  "bot_env0 =
     \<lparr>now = ''t0'', get_file = (\<lambda>f. Some (JStr (''photos/'' @ f))),
      post_report = backend_post env_ok,
      get_user_reports = (\<lambda>i. Response 200 (Some (JArr []))),
      bot_username = ''ss_bot'',
      leading_command =
        (\<lambda>t. if takeWhile (\<lambda>x. x \<noteq> CHR '' '') (tl t) = [] then None
             else Some (takeWhile (\<lambda>x. x \<noteq> CHR '' '') (tl t)))\<rparr>"

definition bot_env_down :: bot_env where
  "bot_env_down = bot_env0\<lparr>post_report := backend_post env_store_down\<rparr>"

definition draft0 :: pydict where
  "draft0 = [(''user_id'', JInt 42), (''username'', JStr ''reporter''), (''timestamp'', JStr ''t0'')]"

text \<open>The example of the specification: a flood of high severity at (12.9, 77.6).\<close>

definition flood_events :: "(tg_user \<times> payload) list" where
  "flood_events =
     [(user0, Command ''report''), (user0, Callback ''type_Flood''),
      (user0, Callback ''severity_High''), (user0, Location 12.9 77.6),
      (user0, Text ''street flooded'')]"

definition flood_draft :: pydict where
  "flood_draft = draft0 @
     [(''disaster_type'', JStr ''Flood''), (''severity'', JStr ''High''),
      (''latitude'', JFloat 12.9), (''longitude'', JFloat 77.6),
      (''description'', JStr ''street flooded'')]"

definition flood_outs :: "out list" where
  "flood_outs =
     [Reply AskDisasterType,
      AnswerQuery, EditMessage (AskSeverity ''Flood''),
      AnswerQuery, EditMessage (AskLocation (JStr ''Flood'') ''High''), Reply ClickShareLocation,
      Reply LocationReceived, Reply AskPhotos]"

definition photos_session :: sessions where
  "photos_session = [42 \<mapsto> \<lparr>step = ''photos'', report_data = flood_draft\<rparr>]"

definition type_session :: sessions where
  "type_session = [42 \<mapsto> \<lparr>step = ''disaster_type'', report_data = draft0\<rparr>]"

definition two_sizes :: "string list" where
  "two_sizes = [''small'', ''large'']"

text \<open>The standard path: \<^verbatim>\<open>/report\<close>, a disaster type, a severity, a location, a description,
  photos, and \<^verbatim>\<open>Submit Report\<close>; the menu labels that \<^verbatim>\<open>handle_message\<close> takes for itself;
  and the entries that \<^verbatim>\<open>handle_photo\<close> appends for a list of photo messages (a message
  with no size, or whose file Telegram does not give, appends nothing).\<close>

definition menu_labels :: "string list" where
  "menu_labels = [label_report_disaster, label_emergency, label_help, label_my_reports]"

fun photo_entries :: "bot_env \<Rightarrow> string list list \<Rightarrow> jval list" where
  "photo_entries env [] = []"
| "photo_entries env (sizes # rest) =
     (if sizes = [] then photo_entries env rest
      else case get_file env (last sizes) of
             None \<Rightarrow> photo_entries env rest
           | Some path \<Rightarrow>
               JObj [(''file_id'', JStr (last sizes)), (''file_path'', path)]
                 # photo_entries env rest)"

definition standard_path ::
    "tg_user \<Rightarrow> string \<Rightarrow> string \<Rightarrow> real \<Rightarrow> real \<Rightarrow> string \<Rightarrow> string list list
      \<Rightarrow> (tg_user \<times> payload) list" where
  "standard_path u dtype sev lat lon descr photos =
     [(u, Command ''report''), (u, Callback (''type_'' @ dtype)), (u, Callback (''severity_'' @ sev)),
      (u, Location lat lon), (u, Text descr)]
     @ map (\<lambda>sizes. (u, Photo sizes)) photos
     @ [(u, Text ''Submit Report'')]"

section \<open>Properties of the backend\<close>

subsection \<open>Exceptions and dictionary access\<close>

lemma bind_exn_simps [simp]:
  "bind_exn (Inl e) f = Inl e" "bind_exn (Inr x) f = f x"
  by (simp_all add: bind_exn_def)

lemma bind_exn_eq_Inr: "bind_exn m f = Inr y \<longleftrightarrow> (\<exists>x. m = Inr x \<and> f x = Inr y)"
  by (cases m) simp_all

lemma getitem_eq_Inr: "getitem x k = Inr v \<longleftrightarrow> (\<exists>d. x = JObj d \<and> map_of d k = Some v)"
  by (cases x) (auto simp: getitem_def split: option.splits)

lemma get_default_eq_Inr:
  "get_default x k dflt = Inr v \<longleftrightarrow> (\<exists>d. x = JObj d \<and> v = dict_get d k dflt)"
  by (cases x) (auto simp: get_default_def)

text \<open>A row is built only from a dictionary that has the five subscripted keys, with
  coordinates that \<^verbatim>\<open>float\<close> accepts; the row is then determined.\<close>

lemma db_data_Inr:
  "db_data env rd = Inr row \<Longrightarrow>
   \<exists>d uid dt sev latv lat lonv lon.
    rd = JObj d \<and> map_of d ''user_id'' = Some uid \<and> map_of d ''disaster_type'' = Some dt \<and>
    map_of d ''severity'' = Some sev \<and>
    map_of d ''latitude'' = Some latv \<and> py_float env latv = Inr lat \<and>
    map_of d ''longitude'' = Some lonv \<and> py_float env lonv = Inr lon \<and>
    row = [(''id'', JStr (uuid_id env)),
           (''user_id'', JStr (py_str env uid)),
           (''username'', dict_get d ''username'' (JStr ''Anonymous'')),
           (''disaster_type'', dt),
           (''severity'', sev),
           (''latitude'', JFloat lat),
           (''longitude'', JFloat lon),
           (''description'', dict_get d ''description'' (JStr '''')),
           (''photos'', JStr (json_dumps env (dict_get d ''photos'' (JArr [])))),
           (''status'', JStr ''Pending''),
           (''source'', JStr ''Telegram Bot''),
           (''created_at'', JStr (now_created env)),
           (''updated_at'', JStr (now_updated env))]"
  by (cases rd) (auto simp: db_data_def bind_exn_eq_Inr getitem_eq_Inr get_default_eq_Inr)

lemma db_data_dict:
  assumes "map_of d ''user_id'' = Some uid" "map_of d ''disaster_type'' = Some dt"
    "map_of d ''severity'' = Some sev"
    "map_of d ''latitude'' = Some (JFloat lat)" "map_of d ''longitude'' = Some (JFloat lon)"
  shows "db_data env (JObj d) =
     Inr [(''id'', JStr (uuid_id env)),
          (''user_id'', JStr (py_str env uid)),
          (''username'', dict_get d ''username'' (JStr ''Anonymous'')),
          (''disaster_type'', dt),
          (''severity'', sev),
          (''latitude'', JFloat lat),
          (''longitude'', JFloat lon),
          (''description'', dict_get d ''description'' (JStr '''')),
          (''photos'', JStr (json_dumps env (dict_get d ''photos'' (JArr [])))),
          (''status'', JStr ''Pending''),
          (''source'', JStr ''Telegram Bot''),
          (''created_at'', JStr (now_created env)),
          (''updated_at'', JStr (now_updated env))]"
  using assms by (simp add: db_data_def getitem_def get_default_def py_float_def)

subsection \<open>The alert service and the required-field loop\<close>

lemma trigger_calls:
  "stored_reports (snd (trigger_emergency_alert env r)) = []"
  "alert_calls (snd (trigger_emergency_alert env r)) = []"
  by (auto simp: trigger_emergency_alert_def split: sum.splits list.splits)

lemma trigger_failure_printed:
  "fst (trigger_emergency_alert env r) = Inl e \<Longrightarrow>
   Printed (AlertError e) \<in> set (snd (trigger_emergency_alert env r))"
  by (auto simp: trigger_emergency_alert_def split: sum.splits list.splits)

lemma first_missing_dict:
  "first_missing (JObj d) fs =
     Inr (case filter (\<lambda>f. map_of d f = None) fs of [] \<Rightarrow> None | g # _ \<Rightarrow> Some g)"
  by (induction fs) (auto simp: py_contains_def)

subsection \<open>The three outcomes of the route\<close>

text \<open>A request is answered before the store is touched, or the row is built and the
  insert fails, or the insert succeeds; only then the alert service may be called.\<close>

lemma create_report_outcome:
  "(\<exists>code msg. code \<noteq> 201 \<and> create_report env request = ((code, error_body msg), [])) \<or>
   (\<exists>data row msg. request = Some data \<and> db_data env data = Inr row \<and>
      (\<forall>r rs. db_insert env ''disaster_reports'' row \<noteq> Inr (r # rs)) \<and>
      create_report env request = ((500, error_body msg), [DbInsert ''disaster_reports'' row])) \<or>
   (\<exists>data row r rs sev. request = Some data \<and> db_data env data = Inr row \<and>
      db_insert env ''disaster_reports'' row = Inr (r # rs) \<and>
      map_of row ''severity'' = Some sev \<and>
      create_report env request =
        ((201, created_body (uuid_id env) r),
         DbInsert ''disaster_reports'' row #
           (if sev = JStr ''Critical''
            then AlertCall r # snd (trigger_emergency_alert env r) else [])))"
proof (cases request)
  case None
  then show ?thesis by (auto simp: create_report_def)
next
  case (Some data)
  show ?thesis
  proof (cases "first_missing data required_fields")
    case (Inl e)
    with Some show ?thesis by (auto simp: create_report_def)
  next
    case (Inr m)
    show ?thesis
    proof (cases m)
      case (Some f)
      with Inr \<open>request = Some data\<close> show ?thesis by (auto simp: create_report_def)
    next
      case None
      note fm = Inr[unfolded None]
      show ?thesis
      proof (cases "db_data env data")
        case (Inl e)
        with fm Some show ?thesis
          by (auto simp: create_report_def DisasterReportService_create_report_def)
      next
        case (Inr row)
        from db_data_Inr[OF Inr] obtain d sev where
          d: "data = JObj d" "map_of d ''severity'' = Some sev" "map_of row ''severity'' = Some sev"
          by auto
        show ?thesis
        proof (cases "db_insert env ''disaster_reports'' row")
          case (Inl e)
          with fm Some Inr show ?thesis
            by (auto simp: create_report_def DisasterReportService_create_report_def)
        next
          case ins: (Inr res)
          show ?thesis
          proof (cases res)
            case Nil
            with ins fm Some Inr show ?thesis
              by (auto simp: create_report_def DisasterReportService_create_report_def)
          next
            case (Cons r rs)
            with ins fm Some Inr d show ?thesis
              by (auto simp: create_report_def DisasterReportService_create_report_def getitem_def)
          qed
        qed
      qed
    qed
  qed
qed


lemma fst_create_report:
  "fst (create_report env request) =
     (case request of
        None \<Rightarrow> (500, error_body (exn_str env BadRequest))
      | Some data \<Rightarrow>
          (case first_missing data required_fields of
             Inl e \<Rightarrow> (500, error_body (exn_str env e))
           | Inr (Some field) \<Rightarrow> (400, error_body (''Missing required field: '' @ field))
           | Inr None \<Rightarrow>
               (case fst (DisasterReportService_create_report env data) of
                  Inl er \<Rightarrow> (500, error_body (err_text env er))
                | Inr (rid, rd) \<Rightarrow>
                    (case getitem data ''severity'' of
                       Inl e \<Rightarrow> (500, error_body (exn_str env e))
                     | Inr sev \<Rightarrow> (201, created_body rid rd)))))"
  by (auto simp: create_report_def split: option.splits sum.splits prod.splits)

text \<open>A dictionary with the five fields and float coordinates, and a store that takes
  the row: the report is created.\<close>

lemma create_report_accepts:
  assumes d: "map_of d ''user_id'' = Some uid" "map_of d ''disaster_type'' = Some dt"
    "map_of d ''severity'' = Some sev"
    "map_of d ''latitude'' = Some (JFloat lat)" "map_of d ''longitude'' = Some (JFloat lon)"
    and row: "db_data env (JObj d) = Inr row"
    and ins: "db_insert env ''disaster_reports'' row = Inr (r # rs)"
  shows "create_report env (Some (JObj d)) =
     ((201, created_body (uuid_id env) r),
      DbInsert ''disaster_reports'' row #
        (if sev = JStr ''Critical''
         then AlertCall r # snd (trigger_emergency_alert env r) else []))"
proof -
  have "filter (\<lambda>f. map_of d f = None) required_fields = []"
    using d by (simp add: required_fields_def)
  then have fm: "first_missing (JObj d) required_fields = Inr None"
    by (simp add: first_missing_dict)
  show ?thesis
    using d row ins
    by (simp add: create_report_def fm DisasterReportService_create_report_def getitem_def)
qed


subsection \<open>Requests, evaluated\<close>

lemmas backend_eval =
  create_report_def required_fields_def py_contains_def DisasterReportService_create_report_def
  db_data_def getitem_def get_default_def dict_get_def py_float_def trigger_emergency_alert_def
  alert_data_def demo_str_def created_body_def error_body_def row_of_def err_text_def

lemma flood_report_eval:
  "create_report env_ok (Some (JObj flood_data)) =
     ((201, created_body ''1A2B3C4D'' (JObj (row_of (JStr ''Flood'') (JStr ''High'') (JStr '''')))),
      [DbInsert ''disaster_reports'' (row_of (JStr ''Flood'') (JStr ''High'') (JStr ''''))])"
  by (simp add: backend_eval env_ok_def flood_data_def)

lemma emergency_report_eval:
  "create_report env_alert_down (Some (JObj emergency_data)) =
     ((201, created_body ''1A2B3C4D'' (JObj (row_of (JStr ''Emergency'') (JStr ''Critical'') (JStr '''')))),
      [DbInsert ''disaster_reports'' (row_of (JStr ''Emergency'') (JStr ''Critical'') (JStr '''')),
       AlertCall (JObj (row_of (JStr ''Emergency'') (JStr ''Critical'') (JStr ''''))),
       DbInsert ''emergency_alerts''
         [(''report_id'', JStr ''1A2B3C4D''), (''alert_type'', JStr ''Critical Disaster Report''),
          (''severity'', JStr ''Critical''), (''location'', JStr ''12.9, 77.6''),
          (''disaster_type'', JStr ''Emergency''), (''description'', JStr ''''),
          (''status'', JStr ''Active''), (''created_at'', JStr ''t3'')],
       Printed (AlertError (ExternalError ''unavailable''))])"
  by (simp add: backend_eval env_ok_def env_alert_down_def emergency_data_def)




section \<open>The backend's reports\<close>




text \<open>
  Claim C6, as amended. The route rejects a dictionary with status 400 exactly when one
  of \<^verbatim>\<open>user_id\<close>, \<^verbatim>\<open>disaster_type\<close>, \<^verbatim>\<open>severity\<close>, \<^verbatim>\<open>latitude\<close>, \<^verbatim>\<open>longitude\<close> is
  missing, whatever path the bot took and whatever the mode (the backend knows no mode);
  nothing is stored then, and \<^verbatim>\<open>DisasterReportService.create_report\<close> on its own would
  fail on the same dictionary. The description is not among the required fields.
\<close>

theorem missing_required_field_rejected:
  "(fst (fst (create_report env (Some (JObj d)))) = 400)
     = (\<exists>g\<in>set required_fields. map_of d g = None)
   \<and> ((\<exists>g\<in>set required_fields. map_of d g = None) \<longrightarrow>
        snd (create_report env (Some (JObj d))) = [] \<and>
        (\<exists>e. DisasterReportService_create_report env (JObj d) = (Inl (Raised e), [])))"
proof -
  let ?miss = "filter (\<lambda>f. map_of d f = None) required_fields"
  have ex: "(\<exists>g\<in>set required_fields. map_of d g = None) = (?miss \<noteq> [])"
    by (auto simp: filter_empty_conv)
  have a: "?miss \<noteq> [] \<Longrightarrow> create_report env (Some (JObj d)) =
      ((400, error_body (''Missing required field: '' @ hd ?miss)), [])"
    by (cases ?miss) (simp_all add: create_report_def first_missing_dict)
  have b: "?miss = [] \<Longrightarrow> fst (fst (create_report env (Some (JObj d)))) \<noteq> 400"
    using create_report_outcome[of env "Some (JObj d)"]
    by (auto simp: create_report_def first_missing_dict split: prod.splits sum.splits)
  have c: "?miss \<noteq> [] \<Longrightarrow> \<exists>e. db_data env (JObj d) = Inl e"
  proof -
    assume "?miss \<noteq> []"
    then obtain g where g: "g \<in> set required_fields" "map_of d g = None"
      by (auto simp: filter_empty_conv)
    show ?thesis
    proof (cases "db_data env (JObj d)")
      case (Inr row)
      from db_data_Inr[OF Inr] g show ?thesis by (auto simp: required_fields_def)
    qed simp
  qed
  from a b c show ?thesis unfolding ex
    by (cases "?miss = []") (auto simp: DisasterReportService_create_report_def)
qed

text \<open>An emergency draft that has no coordinates yet is rejected.\<close>

theorem missing_required_field_rejected_witness:
  "(\<exists>g\<in>set required_fields. map_of no_location_data g = None) \<and>
   fst (fst (create_report env_ok (Some (JObj no_location_data)))) = 400 \<and>
   snd (create_report env_ok (Some (JObj no_location_data))) = [] \<and>
   (\<exists>e. DisasterReportService_create_report env_ok (JObj no_location_data) = (Inl (Raised e), []))"
proof -
  have h: "\<exists>g\<in>set required_fields. map_of no_location_data g = None"
    by (simp add: required_fields_def no_location_data_def)
  from missing_required_field_rejected[of env_ok no_location_data] h show ?thesis by blast
qed

text \<open>C6 as stated fails: a standard report without a description is created, with the
  empty string for it.\<close>

theorem description_not_required_counterexample:
  "map_of flood_data ''description'' = None \<and>
   fst (fst (create_report env_ok (Some (JObj flood_data)))) = 201 \<and>
   map (\<lambda>row. map_of row ''description'')
     (stored_reports (snd (create_report env_ok (Some (JObj flood_data))))) = [Some (JStr '''')]"
  by (simp add: flood_report_eval row_of_def) (simp add: flood_data_def)

section \<open>Alerts\<close>



text \<open>
  Claim C8. If the alert service fails for a stored report (the insert into
  \<^verbatim>\<open>emergency_alerts\<close> raises, or the stored row lacks a key), the failure is printed to
  the log and the route still answers 201 with the stored report. What the route answers,
  and so what the bot receives and tells the user, does not depend on the alerts table at
  all.
\<close>

theorem alert_failure_not_surfaced:
  "(create_report env request = ((code, body), calls) \<and> AlertCall r \<in> set calls \<and>
      fst (trigger_emergency_alert env r) = Inl e
      \<longrightarrow> code = 201 \<and> body = created_body (uuid_id env) r \<and> Printed (AlertError e) \<in> set calls)
   \<and> fst (create_report
            (env\<lparr>db_insert := (\<lambda>t. if t = ''emergency_alerts'' then alerts else db_insert env t)\<rparr>)
            request) = fst (create_report env request)
   \<and> backend_post
        (env\<lparr>db_insert := (\<lambda>t. if t = ''emergency_alerts'' then alerts else db_insert env t)\<rparr>)
      = backend_post env"
proof -
  let ?env' = "env\<lparr>db_insert := (\<lambda>t. if t = ''emergency_alerts'' then alerts else db_insert env t)\<rparr>"
  have no: "AlertCall r \<notin> set (snd (trigger_emergency_alert env r'))" for r'
    by (auto simp: trigger_emergency_alert_def split: sum.splits list.splits)
  have a: "create_report env request = ((code, body), calls) \<and> AlertCall r \<in> set calls \<and>
      fst (trigger_emergency_alert env r) = Inl e
      \<longrightarrow> code = 201 \<and> body = created_body (uuid_id env) r \<and> Printed (AlertError e) \<in> set calls"
    using create_report_outcome[of env request] no trigger_failure_printed[of env r e]
    by (elim disjE exE conjE) (auto split: if_splits)
  have pf: "py_float ?env' x = py_float env x" for x
    by (simp add: py_float_def split: jval.splits)
  have d: "db_data ?env' data = db_data env data" for data
    by (simp add: db_data_def pf)
  have s: "fst (DisasterReportService_create_report ?env' data) =
           fst (DisasterReportService_create_report env data)" for data
    by (simp add: DisasterReportService_create_report_def d split: sum.splits list.splits)
  have b: "fst (create_report ?env' req) = fst (create_report env req)" for req
    by (simp add: fst_create_report s err_text_def
        split: option.splits sum.splits err.splits prod.splits)
  have c: "backend_post ?env' = backend_post env"
    by (simp add: backend_post_def b fun_eq_iff)
  from a b c show ?thesis by blast
qed

text \<open>The emergency report while the alerts table is unavailable.\<close>

theorem alert_failure_not_surfaced_witness:
  "create_report env_alert_down (Some (JObj emergency_data)) =
     ((201, created_body ''1A2B3C4D'' (JObj (row_of (JStr ''Emergency'') (JStr ''Critical'') (JStr '''')))),
      snd (create_report env_alert_down (Some (JObj emergency_data)))) \<and>
   AlertCall (JObj (row_of (JStr ''Emergency'') (JStr ''Critical'') (JStr '''')))
     \<in> set (snd (create_report env_alert_down (Some (JObj emergency_data)))) \<and>
   fst (trigger_emergency_alert env_alert_down
          (JObj (row_of (JStr ''Emergency'') (JStr ''Critical'') (JStr ''''))))
     = Inl (ExternalError ''unavailable'') \<and>
   Printed (AlertError (ExternalError ''unavailable''))
     \<in> set (snd (create_report env_alert_down (Some (JObj emergency_data))))"
proof -
  let ?r = "JObj (row_of (JStr ''Emergency'') (JStr ''Critical'') (JStr ''''))"
  have h1: "create_report env_alert_down (Some (JObj emergency_data)) =
     ((201, created_body ''1A2B3C4D'' ?r),
      snd (create_report env_alert_down (Some (JObj emergency_data))))"
    by (simp add: emergency_report_eval)
  have h2: "AlertCall ?r \<in> set (snd (create_report env_alert_down (Some (JObj emergency_data))))"
    by (simp add: emergency_report_eval)
  have h3: "fst (trigger_emergency_alert env_alert_down ?r) = Inl (ExternalError ''unavailable'')"
    by (simp add: backend_eval env_alert_down_def env_ok_def)
  from alert_failure_not_surfaced[of env_alert_down "Some (JObj emergency_data)" 201
      "created_body ''1A2B3C4D'' ?r" "snd (create_report env_alert_down (Some (JObj emergency_data)))"
      ?r "ExternalError ''unavailable''"] h1 h2 h3
  show ?thesis by blast
qed

section \<open>Properties of the bot\<close>

lemmas bot_eval =
  dispatch_def command_handlers_def command_of_def py_lower_def lower_char_def start_def help_command_def start_report_def emergency_report_def
  button_callback_def handle_location_def handle_message_def handle_photo_def submit_report_def
  show_user_reports_def username_json_def dict_set_def dict_get_def startswith_def
  label_report_disaster_def label_emergency_def label_help_def label_my_reports_def
  user0_def bot_env0_def draft0_def Let_def

subsection \<open>Runs\<close>

lemma run_append:
  "run env ss (xs @ ys) =
     (case run env ss xs of (ss1, o1) \<Rightarrow>
        (case run env ss1 ys of (ss2, o2) \<Rightarrow> (ss2, o1 @ o2)))"
  by (induction xs arbitrary: ss) (auto split: prod.splits)

lemma posts_append [simp]: "posts (xs @ ys) = posts xs @ posts ys"
  by (induction xs) (auto split: out.splits)

subsection \<open>The selections of the keyboards\<close>

text \<open>The callback data of the buttons that \<^verbatim>\<open>start_report\<close> and \<^verbatim>\<open>button_callback\<close>
  build: the prefix is recognised and \<^verbatim>\<open>replace\<close> gives the value back.\<close>

lemma type_data:
  assumes "dtype \<in> set DISASTER_TYPES" "data = ''type_'' @ dtype"
  shows "startswith data ''type_''" "py_replace ''type_'' '''' data = dtype"
  using assms by (auto simp: DISASTER_TYPES_def startswith_def)

lemma severity_data:
  assumes "sev \<in> set SEVERITY_LEVELS" "data = ''severity_'' @ sev"
  shows "\<not> startswith data ''type_''" "startswith data ''severity_''"
    "py_replace ''severity_'' '''' data = sev"
  using assms by (auto simp: SEVERITY_LEVELS_def startswith_def)

lemma standard_prefix_run:
  assumes dt: "dtype \<in> set DISASTER_TYPES" and td: "tdata = ''type_'' @ dtype"
    and sv: "sev \<in> set SEVERITY_LEVELS" and sd: "sdata = ''severity_'' @ sev"
    and ds: "descr \<notin> set menu_labels" and nc: "\<not> startswith descr ''/''"
  shows "run env ss [(u, Command ''report''), (u, Callback tdata), (u, Callback sdata),
                     (u, Location lat lon), (u, Text descr)] =
     (ss(user_id u \<mapsto>
        \<lparr>step = ''photos'',
         report_data =
           [(''user_id'', JInt (user_id u)), (''username'', username_json u),
            (''timestamp'', JStr (now env)),
            (''disaster_type'', JStr dtype), (''severity'', JStr sev),
            (''latitude'', JFloat lat), (''longitude'', JFloat lon),
            (''description'',
             JStr (if descr = ''Skip Description'' then ''No description provided'' else descr))]\<rparr>),
      [Reply AskDisasterType,
       AnswerQuery, EditMessage (AskSeverity dtype),
       AnswerQuery, EditMessage (AskLocation (JStr dtype) sev), Reply ClickShareLocation,
       Reply LocationReceived, Reply AskPhotos])"
proof -
  note t = type_data[OF dt td]
  note s = severity_data[OF sv sd]
  from ds have l: "descr \<noteq> label_report_disaster" "descr \<noteq> label_emergency"
    "descr \<noteq> label_help" "descr \<noteq> label_my_reports"
    by (auto simp: menu_labels_def)
  have c: "command_handlers env ss u ''report'' = start_report env ss u"
    by (simp add: command_handlers_def py_lower_def lower_char_def)
  show ?thesis
    by (simp add: dispatch_def c command_of_def nc start_report_def button_callback_def
        handle_location_def handle_message_def dict_set_def Let_def t s l)
qed

subsection \<open>Photos\<close>

lemma handle_photo_appends:
  assumes ss: "ss (user_id u) = Some s" and st: "step s = ''photos''"
    and inv: "map_of (report_data s) ''photos'' = (if acc = [] then None else Some (JArr acc))"
    and sz: "sizes \<noteq> []" and gf: "get_file env (last sizes) = Some path"
  shows "handle_photo env ss u sizes =
     (ss(user_id u \<mapsto>
        s\<lparr>report_data := dict_set (report_data s) ''photos''
             (JArr (acc @ [JObj [(''file_id'', JStr (last sizes)), (''file_path'', path)]]))\<rparr>),
      [Reply (PhotoReceived (Suc (length acc)))])"
  using assms
  by (cases "acc = []")
     (simp_all add: handle_photo_def Let_def dict_set_def update_conv')

lemma handle_photo_skips:
  assumes "ss (user_id u) = Some s" "step s = ''photos''"
    and "sizes = [] \<or> get_file env (last sizes) = None"
  shows "\<exists>outs. handle_photo env ss u sizes = (ss, outs) \<and> posts outs = []"
  using assms by (auto simp: handle_photo_def)

text \<open>A run of photo messages at the photos step changes nothing but the photo list of
  the draft, which grows by the entries of the messages, and posts nothing.\<close>

lemma run_photos:
  assumes "ss (user_id u) = Some s" "step s = ''photos''"
    "map_of (report_data s) ''photos'' = (if acc = [] then None else Some (JArr acc))"
  shows "\<exists>rd outs.
     run env ss (map (\<lambda>sizes. (u, Photo sizes)) photos) = (ss(user_id u \<mapsto> s\<lparr>report_data := rd\<rparr>), outs)
     \<and> posts outs = []
     \<and> map_of rd ''photos'' =
         (if acc @ photo_entries env photos = [] then None
          else Some (JArr (acc @ photo_entries env photos)))
     \<and> (\<forall>k. k \<noteq> ''photos'' \<longrightarrow> map_of rd k = map_of (report_data s) k)"
  using assms
proof (induction photos arbitrary: ss s acc)
  case Nil
  have "ss(user_id u \<mapsto> s\<lparr>report_data := report_data s\<rparr>) = ss"
    using Nil.prems(1) by (simp add: fun_upd_idem)
  with Nil show ?case
    by (intro exI[of _ "report_data s"] exI[of _ "[]"]) simp
next
  case (Cons sizes photos)
  show ?case
  proof (cases "sizes = [] \<or> get_file env (last sizes) = None")
    case True
    from handle_photo_skips[where ss = ss and s = s, OF Cons.prems(1,2) True]
    obtain outs1 where hp: "handle_photo env ss u sizes = (ss, outs1)" and p1: "posts outs1 = []"
      by blast
    from True have pe: "photo_entries env (sizes # photos) = photo_entries env photos"
      by auto
    from Cons.IH[where ss = ss and s = s and acc = acc, OF Cons.prems] obtain rd outs where
      r: "run env ss (map (\<lambda>sizes. (u, Photo sizes)) photos) = (ss(user_id u \<mapsto> s\<lparr>report_data := rd\<rparr>), outs)"
      and po: "posts outs = []"
      and ph: "map_of rd ''photos'' =
           (if acc @ photo_entries env photos = [] then None
            else Some (JArr (acc @ photo_entries env photos)))"
      and fr: "\<forall>k. k \<noteq> ''photos'' \<longrightarrow> map_of rd k = map_of (report_data s) k"
      by blast
    have run: "run env ss (map (\<lambda>sizes. (u, Photo sizes)) (sizes # photos)) =
         (ss(user_id u \<mapsto> s\<lparr>report_data := rd\<rparr>), outs1 @ outs)"
      using hp r by (simp add: dispatch_def)
    show ?thesis
    proof (intro exI conjI)
      show "run env ss (map (\<lambda>sizes. (u, Photo sizes)) (sizes # photos)) =
         (ss(user_id u \<mapsto> s\<lparr>report_data := rd\<rparr>), outs1 @ outs)"
        by (rule run)
      show "posts (outs1 @ outs) = []" using p1 po by simp
      show "map_of rd ''photos'' =
           (if acc @ photo_entries env (sizes # photos) = [] then None
            else Some (JArr (acc @ photo_entries env (sizes # photos))))"
        using ph by (simp only: pe)
      show "\<forall>k. k \<noteq> ''photos'' \<longrightarrow> map_of rd k = map_of (report_data s) k"
        by (rule fr)
    qed
  next
    case False
    then obtain path where sz: "sizes \<noteq> []" and gf: "get_file env (last sizes) = Some path"
      by auto
    let ?e = "JObj [(''file_id'', JStr (last sizes)), (''file_path'', path)]"
    let ?acc = "acc @ [?e]"
    let ?s = "s\<lparr>report_data := dict_set (report_data s) ''photos'' (JArr ?acc)\<rparr>"
    let ?ss = "ss(user_id u \<mapsto> ?s)"
    have pe: "photo_entries env (sizes # photos) = ?e # photo_entries env photos"
      using sz gf by simp
    have hp: "handle_photo env ss u sizes = (?ss, [Reply (PhotoReceived (Suc (length acc)))])"
      by (rule handle_photo_appends[where ss = ss and s = s and acc = acc, OF Cons.prems(1,2,3) sz gf])
    have a: "?ss (user_id u) = Some ?s" by simp
    have b: "step ?s = ''photos''" using Cons.prems(2) by simp
    have c: "map_of (report_data ?s) ''photos'' = (if ?acc = [] then None else Some (JArr ?acc))"
      by (simp add: dict_set_def update_conv')
    from Cons.IH[where ss = ?ss and s = ?s and acc = ?acc, OF a b c] obtain rd outs where
      r: "run env ?ss (map (\<lambda>sizes. (u, Photo sizes)) photos) = (?ss(user_id u \<mapsto> ?s\<lparr>report_data := rd\<rparr>), outs)"
      and po: "posts outs = []"
      and ph: "map_of rd ''photos'' =
           (if ?acc @ photo_entries env photos = [] then None
            else Some (JArr (?acc @ photo_entries env photos)))"
      and fr: "\<forall>k. k \<noteq> ''photos'' \<longrightarrow> map_of rd k = map_of (report_data ?s) k"
      by blast
    have run: "run env ss (map (\<lambda>sizes. (u, Photo sizes)) (sizes # photos)) =
         (ss(user_id u \<mapsto> s\<lparr>report_data := rd\<rparr>), Reply (PhotoReceived (Suc (length acc))) # outs)"
      using hp r by (simp add: dispatch_def)
    have fr': "\<forall>k. k \<noteq> ''photos'' \<longrightarrow> map_of rd k = map_of (report_data s) k"
      using fr by (simp add: dict_set_def update_conv')
    show ?thesis
    proof (intro exI conjI)
      show "run env ss (map (\<lambda>sizes. (u, Photo sizes)) (sizes # photos)) =
         (ss(user_id u \<mapsto> s\<lparr>report_data := rd\<rparr>), Reply (PhotoReceived (Suc (length acc))) # outs)"
        by (rule run)
      show "posts (Reply (PhotoReceived (Suc (length acc))) # outs) = []"
        using po by simp
      show "map_of rd ''photos'' =
           (if acc @ photo_entries env (sizes # photos) = [] then None
            else Some (JArr (acc @ photo_entries env (sizes # photos))))"
        unfolding pe using ph by simp
      show "\<forall>k. k \<noteq> ''photos'' \<longrightarrow> map_of rd k = map_of (report_data s) k"
        by (rule fr')
    qed
  qed
qed

subsection \<open>Submitting\<close>

lemma submit_accepted:
  assumes "ss (user_id u) = Some s" "step s \<noteq> ''description''"
    "post_report env (JObj (report_data s)) = Response 201 (Some (created_body rid r))"
  shows "handle_message env ss u ''Submit Report'' =
     (ss(user_id u := None),
      [HttpPost (JObj (report_data s)),
       Reply (SubmitSuccess (JStr rid)
                (dict_get (report_data s) ''disaster_type'' (JStr ''N/A''))
                (dict_get (report_data s) ''severity'' (JStr ''N/A''))
                (map_of (report_data s) ''severity'' = Some (JStr ''Critical'')))])"
  using assms
  by (simp add: handle_message_def submit_report_def Let_def created_body_def dict_get_def
      label_report_disaster_def label_emergency_def label_help_def label_my_reports_def)

subsection \<open>The example, evaluated\<close>

lemma flood_run_down:
  "run bot_env_down Map.empty (flood_events @ [(user0, Text ''Submit Report'')]) =
     (Map.empty, flood_outs @ [HttpPost (JObj flood_draft), Reply (SubmitError (ApiError 500))])"
  by (simp add: flood_events_def flood_draft_def flood_outs_def bot_eval bot_env_down_def
      backend_post_def backend_eval env_store_down_def env_ok_def)

lemma flood_post_down:
  "post_report bot_env_down (JObj flood_draft) = Response 500 (Some (error_body ''error''))"
  by (simp add: flood_draft_def bot_env_down_def bot_env0_def draft0_def
      backend_post_def backend_eval env_store_down_def env_ok_def)

lemma flood_run_ok:
  "run bot_env0 Map.empty (standard_path user0 ''Flood'' ''High'' 12.9 77.6 ''street flooded'' []) =
     (Map.empty,
      flood_outs @ [HttpPost (JObj flood_draft),
                    Reply (SubmitSuccess (JStr ''1A2B3C4D'') (JStr ''Flood'') (JStr ''High'') False)])"
  by (simp add: standard_path_def flood_draft_def flood_outs_def bot_eval
      backend_post_def backend_eval env_ok_def)

section \<open>The conversation\<close>

text \<open>
  Claim C1 says that a location sent in emergency mode submits the report at once. The
  code does not: \<^verbatim>\<open>handle_location\<close> overwrites the step with \<^verbatim>\<open>'description'\<close> before
  it tests for \<^verbatim>\<open>'emergency_location'\<close>, so the branch that calls \<^verbatim>\<open>submit_report\<close> is
  never taken. User 42 sends \<^verbatim>\<open>/emergency\<close> and a location: nothing is posted, and the
  session waits for a description.
\<close>

theorem emergency_location_not_submitted:
  "run bot_env0 Map.empty [(user0, Command ''emergency''), (user0, Location 12.9 77.6)] =
     ([42 \<mapsto> \<lparr>step = ''description'',
               report_data = [(''user_id'', JInt 42), (''username'', JStr ''reporter''),
                              (''disaster_type'', JStr ''Emergency''), (''severity'', JStr ''Critical''),
                              (''timestamp'', JStr ''t0''),
                              (''latitude'', JFloat 12.9), (''longitude'', JFloat 77.6)]\<rparr>],
      [Reply EmergencyAskLocation, Reply LocationReceived])"
  by (simp add: bot_eval)

text \<open>
  Claim C4 says that a cancel event deletes the session. The keyboard that
  \<^verbatim>\<open>handle_location\<close> builds offers a \<^verbatim>\<open>Cancel\<close> button, but \<^verbatim>\<open>handle_message\<close> has no
  case for its text: before the description step it is ignored, at the description step
  it is stored as the description, and after it it is ignored again. The session stays.
\<close>

theorem cancel_not_handled:
  "run bot_env0 Map.empty
     [(user0, Command ''report''), (user0, Text ''Cancel''),
      (user0, Callback ''type_Flood''), (user0, Callback ''severity_High''),
      (user0, Location 12.9 77.6), (user0, Text ''Cancel''), (user0, Text ''Cancel'')] =
     ([42 \<mapsto> \<lparr>step = ''photos'',
               report_data = draft0 @
                  [(''disaster_type'', JStr ''Flood''), (''severity'', JStr ''High''),
                   (''latitude'', JFloat 12.9), (''longitude'', JFloat 77.6),
                   (''description'', JStr ''Cancel'')]\<rparr>],
      [Reply AskDisasterType,
       AnswerQuery, EditMessage (AskSeverity ''Flood''),
       AnswerQuery, EditMessage (AskLocation (JStr ''Flood'') ''High''), Reply ClickShareLocation,
       Reply LocationReceived, Reply AskPhotos])"
  by (simp add: bot_eval)

section \<open>Submission\<close>

text \<open>
  Claim C2, as amended. When the draft of a session is submitted and the backend's create
  call fails (the request raises, the status is not 201, or the body is not a JSON
  object), the user is sent the error message, and the session is deleted all the same:
  the \<^verbatim>\<open>finally\<close> block of \<^verbatim>\<open>submit_report\<close> clears it on every path. A retry of the
  submission finds no session and posts nothing, whatever the backend does by then, and
  \<^verbatim>\<open>Submit Report\<close> is answered with the greeting: the user has to start a new report.
\<close>

theorem submit_failure_deletes_session:
  assumes "ss (user_id u) = Some s"
    and "\<forall>b. post_report env (JObj (report_data s)) \<noteq> Response 201 (Some (JObj b))"
  shows "(\<exists>e. submit_report env ss u emergency =
            (ss(user_id u := None), [HttpPost (JObj (report_data s)), Reply (SubmitError e)]))
       \<and> submit_report env' (ss(user_id u := None)) u emergency' = (ss(user_id u := None), [])
       \<and> handle_message env' (ss(user_id u := None)) u ''Submit Report''
           = (ss(user_id u := None), [Reply Greeting])"
proof -
  have a: "\<exists>e. submit_report env ss u emergency =
            (ss(user_id u := None), [HttpPost (JObj (report_data s)), Reply (SubmitError e)])"
    using assms
    by (auto simp: submit_report_def Let_def split: http_result.splits option.splits jval.splits)
  have b: "submit_report env' (ss(user_id u := None)) u emergency' = (ss(user_id u := None), [])"
    by (simp add: submit_report_def)
  have c: "handle_message env' (ss(user_id u := None)) u ''Submit Report''
           = (ss(user_id u := None), [Reply Greeting])"
    by (simp add: handle_message_def label_report_disaster_def label_emergency_def label_help_def
        label_my_reports_def)
  from a b c show ?thesis by blast
qed

text \<open>The flood report, submitted while the store is down and retried when it is up.\<close>

theorem submit_failure_deletes_session_witness:
  "photos_session (user_id user0) = Some \<lparr>step = ''photos'', report_data = flood_draft\<rparr> \<and>
   (\<forall>b. post_report bot_env_down (JObj flood_draft) \<noteq> Response 201 (Some (JObj b))) \<and>
   (\<exists>e. submit_report bot_env_down photos_session user0 False =
      (photos_session(user_id user0 := None), [HttpPost (JObj flood_draft), Reply (SubmitError e)])) \<and>
   submit_report bot_env0 (photos_session(user_id user0 := None)) user0 False
     = (photos_session(user_id user0 := None), [])"
proof -
  have h1: "photos_session (user_id user0) = Some \<lparr>step = ''photos'', report_data = flood_draft\<rparr>"
    by (simp add: photos_session_def user0_def)
  have h2: "\<forall>b. post_report bot_env_down (JObj (report_data \<lparr>step = ''photos'', report_data = flood_draft\<rparr>))
              \<noteq> Response 201 (Some (JObj b))"
    by (simp add: flood_post_down)
  from submit_failure_deletes_session[where ss = photos_session and u = user0
      and s = "\<lparr>step = ''photos'', report_data = flood_draft\<rparr>" and env = bot_env_down
      and emergency = False and env' = bot_env0 and emergency' = False, OF h1 h2] h1 h2
  show ?thesis by simp
qed

text \<open>C2 as stated fails: the store is down when user 42 submits the flood report; the
  error is reported and no session is left. \<^verbatim>\<open>Submit Report\<close> sent again, with the store up,
  posts nothing and is answered with the greeting.\<close>

theorem submit_failure_session_deleted_counterexample:
  "run bot_env_down Map.empty (flood_events @ [(user0, Text ''Submit Report'')]) =
     (Map.empty, flood_outs @ [HttpPost (JObj flood_draft), Reply (SubmitError (ApiError 500))]) \<and>
   run bot_env0 Map.empty [(user0, Text ''Submit Report'')] = (Map.empty, [Reply Greeting])"
  by (simp add: flood_run_down) (simp add: bot_eval)

section \<open>Input that the step does not expect\<close>

text \<open>
  Claim C3, as amended. For an active session, a callback selection that starts with
  \<^verbatim>\<open>type_\<close> or \<^verbatim>\<open>severity_\<close> is accepted whatever value follows the prefix and whatever
  the current step, and a location is accepted whatever its coordinates: the value is
  written to the draft and the step becomes \<^verbatim>\<open>'severity'\<close>, \<^verbatim>\<open>'location'\<close> or
  \<^verbatim>\<open>'description'\<close>. Nothing is compared with an enumeration or a range, and nothing is
  answered as invalid. Only a selection with neither prefix leaves the session as it is;
  it is acknowledged and gets no reply.
\<close>

theorem selections_accepted_unchecked:
  assumes "ss (user_id u) = Some s"
  shows "(startswith data ''type_'' \<longrightarrow>
           button_callback ss u data =
             (ss(user_id u \<mapsto>
                s\<lparr>report_data := dict_set (report_data s) ''disaster_type''
                                    (JStr (py_replace ''type_'' '''' data)),
                  step := ''severity''\<rparr>),
              [AnswerQuery, EditMessage (AskSeverity (py_replace ''type_'' '''' data))]))
       \<and> (\<not> startswith data ''type_'' \<and> startswith data ''severity_'' \<longrightarrow>
           fst (button_callback ss u data) =
             ss(user_id u \<mapsto>
                s\<lparr>report_data := dict_set (report_data s) ''severity''
                                    (JStr (py_replace ''severity_'' '''' data)),
                  step := ''location''\<rparr>))
       \<and> handle_location env ss u lat lon =
             (ss(user_id u \<mapsto>
                s\<lparr>report_data := dict_set (dict_set (report_data s) ''latitude'' (JFloat lat))
                                    ''longitude'' (JFloat lon),
                  step := ''description''\<rparr>),
              [Reply LocationReceived])
       \<and> (\<not> startswith data ''type_'' \<and> \<not> startswith data ''severity_'' \<longrightarrow>
           button_callback ss u data = (ss, [AnswerQuery]))"
  using assms
  by (auto simp: button_callback_def handle_location_def Let_def split: option.splits)

text \<open>A session at the first step: the selection \<^verbatim>\<open>type_Volcano\<close>, the selection
  \<^verbatim>\<open>severity_Extreme\<close>, the location (91, 181), and a selection without a prefix.\<close>

theorem selections_accepted_unchecked_witness:
  "type_session (user_id user0) = Some \<lparr>step = ''disaster_type'', report_data = draft0\<rparr> \<and>
   startswith ''type_Volcano'' ''type_'' \<and>
   button_callback type_session user0 ''type_Volcano'' =
     ([42 \<mapsto> \<lparr>step = ''severity'',
               report_data = draft0 @ [(''disaster_type'', JStr ''Volcano'')]\<rparr>],
      [AnswerQuery, EditMessage (AskSeverity ''Volcano'')]) \<and>
   \<not> startswith ''severity_Extreme'' ''type_'' \<and> startswith ''severity_Extreme'' ''severity_'' \<and>
   fst (button_callback type_session user0 ''severity_Extreme'') =
     [42 \<mapsto> \<lparr>step = ''location'',
              report_data = draft0 @ [(''severity'', JStr ''Extreme'')]\<rparr>] \<and>
   handle_location bot_env0 type_session user0 91 181 =
     ([42 \<mapsto> \<lparr>step = ''description'',
               report_data = draft0 @ [(''latitude'', JFloat 91), (''longitude'', JFloat 181)]\<rparr>],
      [Reply LocationReceived]) \<and>
   \<not> startswith ''noop'' ''type_'' \<and> \<not> startswith ''noop'' ''severity_'' \<and>
   button_callback type_session user0 ''noop'' = (type_session, [AnswerQuery])"
proof -
  let ?s = "\<lparr>step = ''disaster_type'', report_data = draft0\<rparr>"
  have h: "type_session (user_id user0) = Some ?s"
    by (simp add: type_session_def user0_def)
  have p: "startswith ''type_Volcano'' ''type_''"
    "\<not> startswith ''severity_Extreme'' ''type_''" "startswith ''severity_Extreme'' ''severity_''"
    "\<not> startswith ''noop'' ''type_''" "\<not> startswith ''noop'' ''severity_''"
    by (simp_all add: startswith_def)
  have r: "py_replace ''type_'' '''' ''type_Volcano'' = ''Volcano''"
    "py_replace ''severity_'' '''' ''severity_Extreme'' = ''Extreme''"
    by simp_all
  from selections_accepted_unchecked[where ss = type_session and u = user0 and s = ?s
      and data = "''type_Volcano''" and env = bot_env0 and lat = 91 and lon = 181, OF h] p r
  have a: "button_callback type_session user0 ''type_Volcano'' =
     ([42 \<mapsto> \<lparr>step = ''severity'',
               report_data = draft0 @ [(''disaster_type'', JStr ''Volcano'')]\<rparr>],
      [AnswerQuery, EditMessage (AskSeverity ''Volcano'')])"
    and c: "handle_location bot_env0 type_session user0 91 181 =
     ([42 \<mapsto> \<lparr>step = ''description'',
               report_data = draft0 @ [(''latitude'', JFloat 91), (''longitude'', JFloat 181)]\<rparr>],
      [Reply LocationReceived])"
    by (simp_all add: type_session_def user0_def draft0_def dict_set_def)
  from selections_accepted_unchecked[where ss = type_session and u = user0 and s = ?s
      and data = "''severity_Extreme''" and env = bot_env0 and lat = 91 and lon = 181, OF h] p r
  have b: "fst (button_callback type_session user0 ''severity_Extreme'') =
     [42 \<mapsto> \<lparr>step = ''location'',
              report_data = draft0 @ [(''severity'', JStr ''Extreme'')]\<rparr>]"
    by (simp add: type_session_def user0_def draft0_def dict_set_def)
  from selections_accepted_unchecked[where ss = type_session and u = user0 and s = ?s
      and data = "''noop''" and env = bot_env0 and lat = 91 and lon = 181, OF h] p
  have d: "button_callback type_session user0 ''noop'' = (type_session, [AnswerQuery])"
    by simp
  from h p a b c d show ?thesis by blast
qed

text \<open>C3 as stated fails: user 42 selects the disaster type \<^verbatim>\<open>Volcano\<close> and the severity
  \<^verbatim>\<open>Extreme\<close>, neither in its enumeration, and sends the location (91, 181), outside both
  ranges. Each is written to the draft and moves the step on; no reply reports invalid
  input.\<close>

theorem invalid_input_accepted_counterexample:
  "run bot_env0 Map.empty
     [(user0, Command ''report''), (user0, Callback ''type_Volcano''),
      (user0, Callback ''severity_Extreme''), (user0, Location 91 181)] =
     ([42 \<mapsto> \<lparr>step = ''description'',
               report_data = draft0 @
                  [(''disaster_type'', JStr ''Volcano''), (''severity'', JStr ''Extreme''),
                   (''latitude'', JFloat 91), (''longitude'', JFloat 181)]\<rparr>],
      [Reply AskDisasterType,
       AnswerQuery, EditMessage (AskSeverity ''Volcano''),
       AnswerQuery, EditMessage (AskLocation (JStr ''Volcano'') ''Extreme''), Reply ClickShareLocation,
       Reply LocationReceived]) \<and>
   ''Volcano'' \<notin> set DISASTER_TYPES \<and> ''Extreme'' \<notin> set SEVERITY_LEVELS \<and>
   \<not> (91 \<le> (90::real)) \<and> \<not> (181 \<le> (180::real))"
  by (simp add: bot_eval DISASTER_TYPES_def SEVERITY_LEVELS_def)

section \<open>Photos\<close>

text \<open>
  Claim C10. A photo message changes the sessions only when the sender's session is at
  the step \<^verbatim>\<open>'photos'\<close>: without a session, or at any other step, \<^verbatim>\<open>handle_photo\<close> returns
  the sessions as they were and sends nothing. When it does change them, the sender is at
  \<^verbatim>\<open>'photos'\<close>, Telegram gave the file, and the draft's photo list has grown at its end by
  the entry of the largest size. In every case the other users' sessions, the sender's
  step and every other field of the sender's draft stay as they were.
\<close>

theorem photo_only_in_photos_step:
  "((ss (user_id u) = None \<or> (\<exists>s. ss (user_id u) = Some s \<and> step s \<noteq> ''photos''))
      \<longrightarrow> handle_photo env ss u sizes = (ss, []))
   \<and> (fst (handle_photo env ss u sizes) \<noteq> ss \<longrightarrow>
        (\<exists>s ps path. ss (user_id u) = Some s \<and> step s = ''photos'' \<and> sizes \<noteq> [] \<and>
           get_file env (last sizes) = Some path \<and>
           dict_get (report_data s) ''photos'' (JArr []) = JArr ps \<and>
           fst (handle_photo env ss u sizes) =
             ss(user_id u \<mapsto>
                s\<lparr>report_data := dict_set (report_data s) ''photos''
                     (JArr (ps @ [JObj [(''file_id'', JStr (last sizes)), (''file_path'', path)]]))\<rparr>)))
   \<and> (\<forall>v. v \<noteq> user_id u \<longrightarrow> fst (handle_photo env ss u sizes) v = ss v)
   \<and> map_option step (fst (handle_photo env ss u sizes) (user_id u)) = map_option step (ss (user_id u))
   \<and> (\<forall>k. k \<noteq> ''photos'' \<longrightarrow>
        map_option (\<lambda>s. map_of (report_data s) k) (fst (handle_photo env ss u sizes) (user_id u))
          = map_option (\<lambda>s. map_of (report_data s) k) (ss (user_id u)))
   \<and> dispatch env ss (u, Photo sizes) = handle_photo env ss u sizes"
  by (auto simp: handle_photo_def dispatch_def Let_def dict_set_def dict_get_def update_conv'
      split: option.splits jval.splits if_splits)

text \<open>A photo at the first step, a photo from a user without a session, and a photo at
  the photos step.\<close>

theorem photo_only_in_photos_step_witness:
  "(\<exists>s. type_session (user_id user0) = Some s \<and> step s \<noteq> ''photos'') \<and>
   handle_photo bot_env0 type_session user0 two_sizes = (type_session, []) \<and>
   handle_photo bot_env0 Map.empty user0 two_sizes = (Map.empty, []) \<and>
   handle_photo bot_env0 photos_session user0 two_sizes =
     ([42 \<mapsto> \<lparr>step = ''photos'',
               report_data = flood_draft @
                 [(''photos'', JArr [JObj [(''file_id'', JStr ''large''),
                                           (''file_path'', JStr ''photos/large'')]])]\<rparr>],
      [Reply (PhotoReceived 1)])"
proof -
  have h: "\<exists>s. type_session (user_id user0) = Some s \<and> step s \<noteq> ''photos''"
    by (simp add: type_session_def user0_def)
  from photo_only_in_photos_step[of type_session user0 bot_env0 two_sizes] h
  have a: "handle_photo bot_env0 type_session user0 two_sizes = (type_session, [])" by blast
  from photo_only_in_photos_step[of Map.empty user0 bot_env0 two_sizes]
  have b: "handle_photo bot_env0 Map.empty user0 two_sizes = (Map.empty, [])" by simp
  have c: "handle_photo bot_env0 photos_session user0 two_sizes =
     ([42 \<mapsto> \<lparr>step = ''photos'',
               report_data = flood_draft @
                 [(''photos'', JArr [JObj [(''file_id'', JStr ''large''),
                                           (''file_path'', JStr ''photos/large'')]])]\<rparr>],
      [Reply (PhotoReceived 1)])"
    by (simp add: photos_session_def flood_draft_def two_sizes_def bot_eval)
  from h a b c show ?thesis by blast
qed

section \<open>The standard path\<close>

text \<open>
  Claim C9. A user follows the standard path in order: \<^verbatim>\<open>/report\<close>, a disaster type of
  the list, a severity of the list, a location within the ranges, a description, any
  photo messages, and \<^verbatim>\<open>Submit Report\<close>. The description is a text of its own: not one of
  the four menu labels and not starting with a slash, which are other events. The bot
  posts to the route of \<^verbatim>\<open>app.py\<close>, and the store takes the row. Then exactly one payload is
  posted, the route answers 201 and stores exactly one row, and the row holds the user's
  id, the chosen disaster type and severity, the coordinates, the description (the
  placeholder for \<^verbatim>\<open>Skip Description\<close>), the photo entries and the status \<^verbatim>\<open>'Pending'\<close>;
  the session is deleted and the user is told of the success.
\<close>

theorem standard_path_report:
  assumes dt: "dtype \<in> set DISASTER_TYPES" and sv: "sev \<in> set SEVERITY_LEVELS"
    and la: "- 90 \<le> lat \<and> lat \<le> 90" and lo: "- 180 \<le> lon \<and> lon \<le> 180"
    and ds: "descr \<notin> set menu_labels" and nc: "\<not> startswith descr ''/''"
    and post: "post_report env = backend_post benv"
    and ins: "\<forall>row. \<exists>r rs. db_insert benv ''disaster_reports'' row = Inr (r # rs)"
  shows "\<exists>payload row.
           posts (snd (run env ss (standard_path u dtype sev lat lon descr photos))) = [payload] \<and>
           fst (fst (create_report benv (Some payload))) = 201 \<and>
           stored_reports (snd (create_report benv (Some payload))) = [row] \<and>
           map_of row ''user_id'' = Some (JStr (py_str benv (JInt (user_id u)))) \<and>
           map_of row ''username'' = Some (username_json u) \<and>
           map_of row ''disaster_type'' = Some (JStr dtype) \<and>
           map_of row ''severity'' = Some (JStr sev) \<and>
           map_of row ''latitude'' = Some (JFloat lat) \<and>
           map_of row ''longitude'' = Some (JFloat lon) \<and>
           map_of row ''description'' =
             Some (JStr (if descr = ''Skip Description'' then ''No description provided'' else descr)) \<and>
           map_of row ''photos'' = Some (JStr (json_dumps benv (JArr (photo_entries env photos)))) \<and>
           map_of row ''status'' = Some (JStr ''Pending'') \<and>
           fst (run env ss (standard_path u dtype sev lat lon descr photos)) = ss(user_id u := None) \<and>
           last (snd (run env ss (standard_path u dtype sev lat lon descr photos))) =
             Reply (SubmitSuccess (JStr (uuid_id benv)) (JStr dtype) (JStr sev) (sev = ''Critical''))"
proof -
  define d where "d = JStr (if descr = ''Skip Description'' then ''No description provided'' else descr)"
  let ?rd5 = "[(''user_id'', JInt (user_id u)), (''username'', username_json u),
            (''timestamp'', JStr (now env)),
            (''disaster_type'', JStr dtype), (''severity'', JStr sev),
            (''latitude'', JFloat lat), (''longitude'', JFloat lon),
            (''description'', d)]"
  let ?s5 = "\<lparr>step = ''photos'', report_data = ?rd5\<rparr>"
  let ?ss5 = "ss(user_id u \<mapsto> ?s5)"
  let ?outs5 = "[Reply AskDisasterType,
       AnswerQuery, EditMessage (AskSeverity dtype),
       AnswerQuery, EditMessage (AskLocation (JStr dtype) sev), Reply ClickShareLocation,
       Reply LocationReceived, Reply AskPhotos]"
  have pre: "run env ss [(u, Command ''report''), (u, Callback (''type_'' @ dtype)),
                (u, Callback (''severity_'' @ sev)), (u, Location lat lon), (u, Text descr)]
             = (?ss5, ?outs5)"
    unfolding d_def by (rule standard_prefix_run[OF dt refl sv refl ds nc])
  have a: "?ss5 (user_id u) = Some ?s5" by simp
  have b: "step ?s5 = ''photos''" by simp
  have c: "map_of (report_data ?s5) ''photos'' =
             (if ([]::jval list) = [] then None else Some (JArr []))" by simp
  from run_photos[where ss = ?ss5 and s = ?s5 and acc = "[]" and u = u and env = env
      and photos = photos, OF a b c]
  obtain rd outs where
    r: "run env ?ss5 (map (\<lambda>sizes. (u, Photo sizes)) photos) =
          (?ss5(user_id u \<mapsto> ?s5\<lparr>report_data := rd\<rparr>), outs)"
    and po: "posts outs = []"
    and php: "map_of rd ''photos'' =
         (if [] @ photo_entries env photos = [] then None
          else Some (JArr ([] @ photo_entries env photos)))"
    and fr: "\<forall>k. k \<noteq> ''photos'' \<longrightarrow> map_of rd k = map_of (report_data ?s5) k"
    by blast
  let ?sP = "\<lparr>step = ''photos'', report_data = rd\<rparr>"
  let ?ssP = "ss(user_id u \<mapsto> ?sP)"
  have r': "run env ?ss5 (map (\<lambda>sizes. (u, Photo sizes)) photos) = (?ssP, outs)"
    using r by simp
  have f: "map_of rd ''user_id'' = Some (JInt (user_id u))"
    "map_of rd ''username'' = Some (username_json u)"
    "map_of rd ''disaster_type'' = Some (JStr dtype)"
    "map_of rd ''severity'' = Some (JStr sev)"
    "map_of rd ''latitude'' = Some (JFloat lat)"
    "map_of rd ''longitude'' = Some (JFloat lon)"
    "map_of rd ''description'' = Some d"
    using fr by simp_all
  have g: "dict_get rd ''photos'' (JArr []) = JArr (photo_entries env photos)"
    using php by (cases "photo_entries env photos") (simp_all add: dict_get_def)
  let ?row = "[(''id'', JStr (uuid_id benv)),
          (''user_id'', JStr (py_str benv (JInt (user_id u)))),
          (''username'', username_json u),
          (''disaster_type'', JStr dtype),
          (''severity'', JStr sev),
          (''latitude'', JFloat lat),
          (''longitude'', JFloat lon),
          (''description'', d),
          (''photos'', JStr (json_dumps benv (JArr (photo_entries env photos)))),
          (''status'', JStr ''Pending''),
          (''source'', JStr ''Telegram Bot''),
          (''created_at'', JStr (now_created benv)),
          (''updated_at'', JStr (now_updated benv))]"
  have row: "db_data benv (JObj rd) = Inr ?row"
    using db_data_dict[OF f(1) f(3) f(4) f(5) f(6), of benv] f(2) f(7) g
    by (simp add: dict_get_def)
  from ins obtain r0 rs where i: "db_insert benv ''disaster_reports'' ?row = Inr (r0 # rs)"
    by blast
  have cr: "create_report benv (Some (JObj rd)) =
     ((201, created_body (uuid_id benv) r0),
      DbInsert ''disaster_reports'' ?row #
        (if JStr sev = JStr ''Critical''
         then AlertCall r0 # snd (trigger_emergency_alert benv r0) else []))"
    by (rule create_report_accepts[OF f(1) f(3) f(4) f(5) f(6) row i])
  have pr: "post_report env (JObj (report_data ?sP)) = Response 201 (Some (created_body (uuid_id benv) r0))"
    by (simp add: post backend_post_def cr)
  have sub: "handle_message env ?ssP u ''Submit Report'' =
     (ss(user_id u := None),
      [HttpPost (JObj rd), Reply (SubmitSuccess (JStr (uuid_id benv)) (JStr dtype) (JStr sev) (sev = ''Critical''))])"
    using submit_accepted[where ss = ?ssP and u = u and s = ?sP and env = env
        and rid = "uuid_id benv" and r = r0, OF _ _ pr] f
    by (simp add: dict_get_def)
  have sub': "run env ?ssP [(u, Text ''Submit Report'')] =
     (ss(user_id u := None),
      [HttpPost (JObj rd), Reply (SubmitSuccess (JStr (uuid_id benv)) (JStr dtype) (JStr sev) (sev = ''Critical''))])"
    by (simp add: dispatch_def command_of_def startswith_def sub)
  have total: "run env ss (standard_path u dtype sev lat lon descr photos) =
     (ss(user_id u := None),
      ?outs5 @ outs @
      [HttpPost (JObj rd), Reply (SubmitSuccess (JStr (uuid_id benv)) (JStr dtype) (JStr sev) (sev = ''Critical''))])"
    unfolding standard_path_def run_append pre r' sub' prod.case by simp
  have st: "stored_reports (snd (create_report benv (Some (JObj rd)))) = [?row]"
    by (simp add: cr trigger_calls)
  show ?thesis
  proof (intro exI conjI)
    show "posts (snd (run env ss (standard_path u dtype sev lat lon descr photos))) = [JObj rd]"
      by (simp add: total po)
    show "fst (fst (create_report benv (Some (JObj rd)))) = 201" by (simp add: cr)
    show "stored_reports (snd (create_report benv (Some (JObj rd)))) = [?row]" by (rule st)
    show "fst (run env ss (standard_path u dtype sev lat lon descr photos)) = ss(user_id u := None)"
      by (simp add: total)
    show "last (snd (run env ss (standard_path u dtype sev lat lon descr photos))) =
             Reply (SubmitSuccess (JStr (uuid_id benv)) (JStr dtype) (JStr sev) (sev = ''Critical''))"
      by (simp add: total)
  qed (simp_all add: d_def)
qed

text \<open>The example of the specification: type Flood, severity High, location (12.9, 77.6),
  description \<^verbatim>\<open>street flooded\<close>, no photo, submit.\<close>

theorem standard_path_report_witness:
  "''Flood'' \<in> set DISASTER_TYPES \<and> ''High'' \<in> set SEVERITY_LEVELS \<and>
   - 90 \<le> (12.9::real) \<and> (12.9::real) \<le> 90 \<and> - 180 \<le> (77.6::real) \<and> (77.6::real) \<le> 180 \<and>
   ''street flooded'' \<notin> set menu_labels \<and> \<not> startswith ''street flooded'' ''/'' \<and>
   post_report bot_env0 = backend_post env_ok \<and>
   (\<forall>row. \<exists>r rs. db_insert env_ok ''disaster_reports'' row = Inr (r # rs)) \<and>
   run bot_env0 Map.empty (standard_path user0 ''Flood'' ''High'' 12.9 77.6 ''street flooded'' []) =
     (Map.empty,
      flood_outs @ [HttpPost (JObj flood_draft),
                    Reply (SubmitSuccess (JStr ''1A2B3C4D'') (JStr ''Flood'') (JStr ''High'') False)]) \<and>
   (\<exists>payload row.
      posts (snd (run bot_env0 Map.empty
                    (standard_path user0 ''Flood'' ''High'' 12.9 77.6 ''street flooded'' []))) = [payload] \<and>
      stored_reports (snd (create_report env_ok (Some payload))) = [row] \<and>
      map_of row ''disaster_type'' = Some (JStr ''Flood'') \<and>
      map_of row ''severity'' = Some (JStr ''High'') \<and>
      map_of row ''latitude'' = Some (JFloat 12.9) \<and>
      map_of row ''longitude'' = Some (JFloat 77.6) \<and>
      map_of row ''description'' = Some (JStr ''street flooded'') \<and>
      map_of row ''photos'' = Some (JStr ''[]'') \<and>
      map_of row ''status'' = Some (JStr ''Pending''))"
proof -
  have h1: "''Flood'' \<in> set DISASTER_TYPES" by (simp add: DISASTER_TYPES_def)
  have h2: "''High'' \<in> set SEVERITY_LEVELS" by (simp add: SEVERITY_LEVELS_def)
  have h3: "- 90 \<le> (12.9::real) \<and> (12.9::real) \<le> 90" by simp
  have h4: "- 180 \<le> (77.6::real) \<and> (77.6::real) \<le> 180" by simp
  have h5: "''street flooded'' \<notin> set menu_labels"
    by (simp add: menu_labels_def label_report_disaster_def label_emergency_def label_help_def
        label_my_reports_def)
  have h6: "\<not> startswith ''street flooded'' ''/''" by (simp add: startswith_def)
  have h7: "post_report bot_env0 = backend_post env_ok" by (simp add: bot_env0_def)
  have h8: "\<forall>row. \<exists>r rs. db_insert env_ok ''disaster_reports'' row = Inr (r # rs)"
    by (simp add: env_ok_def)
  from standard_path_report[where dtype = "''Flood''" and sev = "''High''" and lat = "12.9"
      and lon = "77.6" and descr = "''street flooded''" and photos = "[]" and env = bot_env0
      and benv = env_ok and ss = Map.empty and u = user0, OF h1 h2 h3 h4 h5 h6 h7 h8]
  have c: "\<exists>payload row.
      posts (snd (run bot_env0 Map.empty
                    (standard_path user0 ''Flood'' ''High'' 12.9 77.6 ''street flooded'' []))) = [payload] \<and>
      stored_reports (snd (create_report env_ok (Some payload))) = [row] \<and>
      map_of row ''disaster_type'' = Some (JStr ''Flood'') \<and>
      map_of row ''severity'' = Some (JStr ''High'') \<and>
      map_of row ''latitude'' = Some (JFloat 12.9) \<and>
      map_of row ''longitude'' = Some (JFloat 77.6) \<and>
      map_of row ''description'' = Some (JStr ''street flooded'') \<and>
      map_of row ''photos'' = Some (JStr ''[]'') \<and>
      map_of row ''status'' = Some (JStr ''Pending'')"
    by (elim exE conjE, intro exI conjI) (simp_all add: env_ok_def)
  from h1 h2 h3 h4 h5 h6 h7 h8 flood_run_ok c show ?thesis by blast
qed

end
